theory Spec2Isabelle
  imports Main "HOL-Library.Sublist"
begin

section \<open>Python values, exceptions and string helpers\<close>

text \<open>
  The two modules are Python 2 code (\<^verbatim>\<open>filter(...)[0]\<close>, byte strings returned by
  \<^verbatim>\<open>check_output\<close> compared with \<^verbatim>\<open>str\<close>), so \<^verbatim>\<open>str\<close> is a byte string and
  \<^verbatim>\<open>filter\<close>/\<^verbatim>\<open>map\<close> return lists. Every exception the code can raise is a value of
  \<open>error\<close>; a computation that may raise returns \<open>error + 'a\<close> with \<open>Inl\<close> the exception.
\<close>

datatype error =
    PluginError string
  | CalledProcessError int "string list"
  | KeyError string
  | IndexError
  | AttributeError string
  | TypeError
  | EnvironmentError string
  | HTTPError nat
  | UncertainSSLEndpointError nat

datatype pyval = PyNone | PyInt int | PyStr string

datatype level = DEBUG | WARNING

text \<open>\<^verbatim>\<open>s.endswith(suffix)\<close>: the last \<open>len(suffix)\<close> characters of \<open>s\<close> are \<open>suffix\<close>.\<close>

definition endswith :: "string \<Rightarrow> string \<Rightarrow> bool" where
  "endswith s suf = (length suf \<le> length s \<and> drop (length s - length suf) s = suf)"

text \<open>Attribute lookup on an instance whose attributes are the dictionary \<open>self\<close>.\<close>

definition getattr :: "(string \<rightharpoonup> pyval) \<Rightarrow> string \<Rightarrow> error + pyval" where
  "getattr self a = (case self a of None \<Rightarrow> Inl (AttributeError a) | Some v \<Rightarrow> Inr v)"

text \<open>The binary \<^verbatim>\<open>+\<close>: defined on two strings and on two integers, a \<^verbatim>\<open>TypeError\<close> otherwise.\<close>

fun py_add :: "pyval \<Rightarrow> pyval \<Rightarrow> error + pyval" where
  "py_add (PyStr a) (PyStr b) = Inr (PyStr (a @ b))"
| "py_add (PyInt a) (PyInt b) = Inr (PyInt (a + b))"
| "py_add _ _ = Inl TypeError"

definition bind_err :: "error + 'a \<Rightarrow> ('a \<Rightarrow> error + 'b) \<Rightarrow> error + 'b" where
  "bind_err m f = (case m of Inl e \<Rightarrow> Inl e | Inr x \<Rightarrow> f x)"

section \<open>certbot\_heroku/heroku\_client.py: HerokuApp\<close>

record domain_obj =
  hostname :: string

record ssl_endpoint =
  ep_name :: string
  certificate_chain :: string
  private_key :: string

text \<open>
  The platform behind the management API: the domains and TLS endpoints of the
  application, the requests it has received, and the HTTP status it answers to a
  \<^verbatim>\<open>PATCH\<close>. The logger of the \<^verbatim>\<open>HerokuApp\<close> object is kept beside it.
\<close>

datatype request =
    GET "string list"
  | PATCH "string list" "(string \<times> string) list"

record cloud =
  app_name :: string
  domains :: "domain_obj list"
  ssl_endpoints :: "ssl_endpoint list"
  requests :: "request list"
  patch_status :: nat
  app_logged :: "(level \<times> string) list"

record heroku_app =
  app_dry_run :: bool

text \<open>\<^verbatim>\<open>self._api_app.domains()\<close> and \<^verbatim>\<open>self._api_app.ssl_endpoints()\<close>: a fetch on every call.\<close>

definition api_domains :: "cloud \<Rightarrow> domain_obj list \<times> cloud" where
  "api_domains c =
     (domains c, c\<lparr>requests := requests c @ [GET [''apps'', app_name c, ''domains'']]\<rparr>)"

definition api_ssl_endpoints :: "cloud \<Rightarrow> ssl_endpoint list \<times> cloud" where
  "api_ssl_endpoints c =
     (ssl_endpoints c, c\<lparr>requests := requests c @ [GET [''apps'', app_name c, ''ssl-endpoints'']]\<rparr>)"

text \<open>
  \<^verbatim>\<open>HerokuApp.get_domains\<close>:
  \<^verbatim>\<open>custom = filter(lambda d: not d.hostname.endswith(".herokuapp.com"), domain_objs)\<close>,
  \<^verbatim>\<open>return map(lambda d: d.hostname, custom)\<close>.
\<close>

definition get_domains :: "cloud \<Rightarrow> string list \<times> cloud" where
  "get_domains c =
     (let (domain_objs, c1) = api_domains c;
          custom_domain_objs = filter (\<lambda>d. \<not> endswith (hostname d) ''.herokuapp.com'') domain_objs
      in (map (\<lambda>d. hostname d) custom_domain_objs, c1))"

text \<open>
  \<^verbatim>\<open>SSLEndpoint.update\<close>: the arguments that are \<^verbatim>\<open>None\<close> are dropped from the payload, the
  rest is sent as one \<^verbatim>\<open>PATCH\<close> on the endpoint's resource; \<^verbatim>\<open>raise_for_status\<close> raises on a
  status of 400 or more. A platform that accepts the request replaces the fields sent, on
  the endpoint of that name.
\<close>

definition payload_of :: "(string \<times> string option) list \<Rightarrow> (string \<times> string) list" where
  "payload_of kvs = concat (map (\<lambda>(k, v). case v of None \<Rightarrow> [] | Some x \<Rightarrow> [(k, x)]) kvs)"

definition apply_payload :: "(string \<times> string) list \<Rightarrow> ssl_endpoint \<Rightarrow> ssl_endpoint" where
  "apply_payload payload e =
     e\<lparr>certificate_chain :=
          (case map_of payload ''certificate_chain'' of None \<Rightarrow> certificate_chain e | Some v \<Rightarrow> v),
        private_key :=
          (case map_of payload ''private_key'' of None \<Rightarrow> private_key e | Some v \<Rightarrow> v)\<rparr>"

definition ssl_update ::
  "ssl_endpoint \<Rightarrow> string option \<Rightarrow> string option \<Rightarrow> string option \<Rightarrow> string option \<Rightarrow>
   cloud \<Rightarrow> (error + ssl_endpoint) \<times> cloud" where
  "ssl_update self chain pkey preprocess rollback c =
     (let payload = payload_of [(''certificate_chain'', chain), (''private_key'', pkey),
                                (''preprocess'', preprocess), (''rollback'', rollback)];
          c1 = c\<lparr>requests := requests c @
                 [PATCH [''apps'', app_name c, ''ssl-endpoints'', ep_name self] payload]\<rparr>
      in if 400 \<le> patch_status c then (Inl (HTTPError (patch_status c)), c1)
         else (Inr (apply_payload payload self),
               c1\<lparr>ssl_endpoints :=
                     map (\<lambda>e. if ep_name e = ep_name self then apply_payload payload e else e)
                         (ssl_endpoints c1)\<rparr>))"

text \<open>
  \<^verbatim>\<open>HerokuApp.update_certificate\<close>: the endpoints are fetched, a count other than one
  raises \<^verbatim>\<open>UncertainSSLEndpointError(num_endpoints=...)\<close>, a dry run logs a warning, and
  otherwise the one endpoint is updated.
\<close>

definition update_certificate ::
  "heroku_app \<Rightarrow> string \<Rightarrow> string \<Rightarrow> cloud \<Rightarrow> (error + unit) \<times> cloud" where
  "update_certificate self key certificate c =
     (let (ssls, c1) = api_ssl_endpoints c;
          num_endpoints = length ssls
      in if num_endpoints \<noteq> 1 then (Inl (UncertainSSLEndpointError num_endpoints), c1)
         else let ssl = ssls ! 0
              in if app_dry_run self
                 then (Inr (), c1\<lparr>app_logged := app_logged c1 @
                         [(WARNING, ''Would replace certificate on endpoint '' @ ep_name ssl @
                                    '' with '' @ certificate)]\<rparr>)
                 else (case ssl_update ssl (Some certificate) (Some key) None None c1 of
                         (Inl e, c2) \<Rightarrow> (Inl e, c2)
                       | (Inr _, c2) \<Rightarrow> (Inr (), c2)))"

text \<open>
  \<^verbatim>\<open>UncertainSSLEndpointError\<close>: \<^verbatim>\<open>__init__\<close> stores the attribute \<^verbatim>\<open>num_endpoints\<close>;
  \<^verbatim>\<open>__str__\<close> evaluates
  \<^verbatim>\<open>"The application has " + self.num_endpoint + " endpoints, not 1."\<close>
  as an expression statement and returns nothing (\<^verbatim>\<open>None\<close>); \<^verbatim>\<open>str(e)\<close> raises a
  \<^verbatim>\<open>TypeError\<close> when \<^verbatim>\<open>__str__\<close> returns a non-string.
\<close>

definition uncertain_attrs :: "nat \<Rightarrow> (string \<rightharpoonup> pyval)" where
  "uncertain_attrs num_endpoints = [''num_endpoints'' \<mapsto> PyInt (int num_endpoints)]"

definition uncertain_str_method :: "(string \<rightharpoonup> pyval) \<Rightarrow> error + pyval" where
  "uncertain_str_method self =
     bind_err (getattr self ''num_endpoint'') (\<lambda>n.
     bind_err (py_add (PyStr ''The application has '') n) (\<lambda>s.
     bind_err (py_add s (PyStr '' endpoints, not 1.'')) (\<lambda>_.
     Inr PyNone)))"

definition py_str :: "error + pyval \<Rightarrow> error + string" where
  "py_str r = bind_err r (\<lambda>v. case v of PyStr s \<Rightarrow> Inr s | _ \<Rightarrow> Inl TypeError)"

definition uncertain_message :: "nat \<Rightarrow> error + string" where
  "uncertain_message num_endpoints = py_str (uncertain_str_method (uncertain_attrs num_endpoints))"

section \<open>letsencrypt/plugins/heroku.py: the world the plugin runs in\<close>

text \<open>
  A path is the list of its components below the working directory (the working copy),
  the empty list being the working directory itself:
  \<^verbatim>\<open>a + "/" + b\<close> appends, \<^verbatim>\<open>os.path.dirname\<close> drops the last component and maps the
  empty path to itself, as it maps \<^verbatim>\<open>""\<close> and \<^verbatim>\<open>"/"\<close> to themselves. In messages and
  argument vectors a path is rendered with \<^verbatim>\<open>/\<close> between its components.
\<close>

type_synonym path = "string list"

definition dirname :: "path \<Rightarrow> path" where
  "dirname p = butlast p"

fun join :: "string \<Rightarrow> string list \<Rightarrow> string" where
  "join sep [] = []"
| "join sep [x] = x"
| "join sep (x # y # ys) = x @ sep @ join sep (y # ys)"

definition render :: "path \<Rightarrow> string" where
  "render p = join ''/'' p"

text \<open>
  The file system is a tree: a file has an owner and a content, a directory an owner and
  its entries. The process has the rights its operations need (the plugin runs under
  sudo), so an operation fails only for the shape of the tree: a missing path
  (\<^verbatim>\<open>ENOENT\<close>), a file where a directory is needed (\<^verbatim>\<open>ENOTDIR\<close>), a directory where a
  file is needed (\<^verbatim>\<open>EISDIR\<close>), a path that exists already (\<^verbatim>\<open>EEXIST\<close>). Both
  \<^verbatim>\<open>IOError\<close> and \<^verbatim>\<open>OSError\<close> are \<open>EnvironmentError\<close> with the name of the errno.
\<close>

datatype node = File nat string | Dir nat "string \<Rightarrow> node option"

text \<open>
  A subprocess exits with a status and its output, or cannot be started. The world of the
  plugin: the file system below the working directory, the user id of the process
  (\<^verbatim>\<open>os.getuid()\<close>, also the owner of what the process creates), \<^verbatim>\<open>os.environ\<close>, the
  argument vectors handed to \<^verbatim>\<open>check_output\<close> so far, the lines logged so far, the
  number of calls of the verifier so far and the seconds of every sleep so far.
\<close>

datatype proc_result = Exited int string | NotStarted

record world =
  fs :: node
  uid :: nat
  environ :: "string \<Rightarrow> string option"
  executed :: "string list list"
  logged :: "(level \<times> string) list"
  polls :: nat
  sleeps :: "nat list"

text \<open>
  An annotated challenge, as far as the plugin reads it: \<open>token\<close> is the text
  \<^verbatim>\<open>achall.chall.encode("token")\<close> (base64url, so one file name), \<open>response\<close> and
  \<open>validation\<close> are the pair of \<^verbatim>\<open>achall.response_and_validation()\<close>, the validation
  already encoded.
\<close>

record achall =
  URI_ROOT_PATH :: path
  token :: string
  response :: string
  validation :: string
  domain :: string
  account_public_key :: string

datatype verify_outcome = Verified | NotVerified | VerifyInterrupted

text \<open>
  What the plugin does not control: the exit status and output of a subprocess (given the
  argument vectors run before it), the answer of the \<open>n\<close>-th call of
  \<^verbatim>\<open>response.simple_verify\<close>, and whether the \<open>n\<close>-th \<^verbatim>\<open>time.sleep\<close> is cut short by a
  \<^verbatim>\<open>KeyboardInterrupt\<close>.
\<close>

record ext =
  subprocess :: "string list list \<Rightarrow> string list \<Rightarrow> proc_result"
  simple_verify :: "nat \<Rightarrow> string \<Rightarrow> string \<Rightarrow> string \<Rightarrow> string \<Rightarrow> nat \<Rightarrow> verify_outcome"
  sleep_interrupted :: "nat \<Rightarrow> bool"

subsection \<open>Computations that may raise\<close>

definition bind_io ::
  "('s \<Rightarrow> (error + 'a) \<times> 's) \<Rightarrow> ('a \<Rightarrow> 's \<Rightarrow> (error + 'b) \<times> 's) \<Rightarrow> 's \<Rightarrow> (error + 'b) \<times> 's" where
  "bind_io m f s = (case m s of (Inl e, s') \<Rightarrow> (Inl e, s') | (Inr a, s') \<Rightarrow> f a s')"

text \<open>The same for a computation that may also not return (\<open>None\<close>).\<close>

definition bind_pio ::
  "('s \<Rightarrow> ((error + 'a) \<times> 's) option) \<Rightarrow> ('a \<Rightarrow> 's \<Rightarrow> ((error + 'b) \<times> 's) option) \<Rightarrow>
   's \<Rightarrow> ((error + 'b) \<times> 's) option" where
  "bind_pio m f s =
     (case m s of None \<Rightarrow> None | Some (Inl e, s') \<Rightarrow> Some (Inl e, s') | Some (Inr a, s') \<Rightarrow> f a s')"

definition total :: "('s \<Rightarrow> (error + 'a) \<times> 's) \<Rightarrow> 's \<Rightarrow> ((error + 'a) \<times> 's) option" where
  "total m s = Some (m s)"

definition log_msg :: "level \<Rightarrow> string \<Rightarrow> world \<Rightarrow> (error + unit) \<times> world" where
  "log_msg l m w = (Inr (), w\<lparr>logged := logged w @ [(l, m)]\<rparr>)"

subsection \<open>Strings\<close>

definition apos :: string where
  "apos = [CHR 0x27]"

definition whitespace :: "char list" where
  "whitespace = [CHR 0x09, CHR 0x0A, CHR 0x0B, CHR 0x0C, CHR 0x0D, CHR 0x20]"

text \<open>\<^verbatim>\<open>s.rstrip()\<close>.\<close>

definition rstrip :: "string \<Rightarrow> string" where
  "rstrip s = rev (dropWhile (\<lambda>c. c \<in> set whitespace) (rev s))"

text \<open>
  \<^verbatim>\<open>cmd_quote\<close> (\<^verbatim>\<open>pipes.quote\<close>, \<^verbatim>\<open>shlex.quote\<close>): a non-empty string of safe characters is
  returned as it is, the empty string as two single quotes, anything else between single
  quotes with each single quote replaced by \<^verbatim>\<open>'"'"'\<close>.
\<close>

definition safechars :: "char list" where
  "safechars = ''abcdefghijklmnopqrstuvwxyzABCDEFGHIJKLMNOPQRSTUVWXYZ0123456789@%_-+=:,./''"

definition cmd_quote :: "string \<Rightarrow> string" where
  "cmd_quote s =
     (if list_all (\<lambda>c. c \<in> set safechars) s
      then (if s = [] then apos @ apos else s)
      else apos @ concat (map (\<lambda>c. if c = CHR 0x27 then apos @ [CHR 0x22] @ apos @ [CHR 0x22] @ apos
                                     else [c]) s) @ apos)"

section \<open>Command\<close>

datatype command = Command (arguments: "string list")

text \<open>
  \<^verbatim>\<open>Command.resudoed\<close>: \<^verbatim>\<open>sudo_user = os.environ["SUDO_USER"]\<close> raises \<^verbatim>\<open>KeyError\<close> when
  the variable is not set. A value of \<^verbatim>\<open>os.environ\<close> is a string, never \<^verbatim>\<open>None\<close>, so the
  branch \<^verbatim>\<open>if sudo_user is None: return self\<close> is never taken and the command is
  wrapped. The user id of the process is not read.
\<close>

definition resudoed :: "world \<Rightarrow> command \<Rightarrow> error + command" where
  "resudoed w self =
     (case environ w ''SUDO_USER'' of
        None \<Rightarrow> Inl (KeyError ''SUDO_USER'')
      | Some sudo_user \<Rightarrow> Inr (Command ([''sudo'', ''-u'', sudo_user] @ arguments self)))"

text \<open>\<^verbatim>\<open>Command.__str__\<close>.\<close>

definition command_str :: "world \<Rightarrow> command \<Rightarrow> string" where
  "command_str w self =
     (let prompt = (if uid w = 0 then ''# '' else ''$ '')
      in prompt @ join '' '' (map cmd_quote (arguments self)))"

text \<open>
  \<^verbatim>\<open>check_output\<close>: the output of a process that exits with status 0,
  \<^verbatim>\<open>CalledProcessError\<close> with the status and the argument vector for any other status,
  \<^verbatim>\<open>OSError\<close> when the program cannot be started. \<open>executed\<close> records every argument
  vector handed to it.
\<close>

definition check_output :: "ext \<Rightarrow> string list \<Rightarrow> world \<Rightarrow> (error + string) \<times> world" where
  "check_output x argv w =
     (let w1 = w\<lparr>executed := executed w @ [argv]\<rparr>
      in case subprocess x (executed w) argv of
           NotStarted \<Rightarrow> (Inl (EnvironmentError ''ENOENT''), w1)
         | Exited returncode out \<Rightarrow>
             if returncode = 0 then (Inr out, w1)
             else (Inl (CalledProcessError returncode argv), w1))"

text \<open>\<^verbatim>\<open>Command.run\<close>: \<open>None\<close> is Python's \<^verbatim>\<open>None\<close>, returned by a dry run.\<close>

definition run :: "ext \<Rightarrow> bool \<Rightarrow> command \<Rightarrow> world \<Rightarrow> (error + string option) \<times> world" where
  "run x dry_run self w =
     (if dry_run
      then bind_io (log_msg WARNING (''Would run: '' @ command_str w self)) (\<lambda>_ w'. (Inr None, w')) w
      else bind_io (log_msg DEBUG (''Running: '' @ command_str w self)) (\<lambda>_.
           bind_io (check_output x (arguments self)) (\<lambda>out w'. (Inr (Some out), w'))) w)"

section \<open>GitClient\<close>

record git_client =
  dry_run :: bool

definition git :: "world \<Rightarrow> string list \<Rightarrow> error + command" where
  "git w args = resudoed w (Command (''git'' # args))"

definition git_run ::
  "ext \<Rightarrow> bool \<Rightarrow> string list \<Rightarrow> world \<Rightarrow> (error + string option) \<times> world" where
  "git_run x d args w = (case git w args of Inl e \<Rightarrow> (Inl e, w) | Inr c \<Rightarrow> run x d c w)"

text \<open>
  \<^verbatim>\<open>checked_out_branch\<close>: \<^verbatim>\<open>output.rstrip()\<close>; \<^verbatim>\<open>rstrip\<close> on \<^verbatim>\<open>None\<close> would be an
  \<^verbatim>\<open>AttributeError\<close>.
\<close>

definition checked_out_branch :: "ext \<Rightarrow> git_client \<Rightarrow> world \<Rightarrow> (error + string) \<times> world" where
  "checked_out_branch x self =
     bind_io (git_run x False [''symbolic-ref'', ''--short'', ''-q'', ''HEAD'']) (\<lambda>out w.
       case out of None \<Rightarrow> (Inl (AttributeError ''rstrip''), w) | Some out \<Rightarrow> (Inr (rstrip out), w))"

definition update_remote :: "ext \<Rightarrow> git_client \<Rightarrow> string \<Rightarrow> world \<Rightarrow> (error + unit) \<times> world" where
  "update_remote x self remote =
     bind_io (git_run x False [''remote'', ''update'', remote]) (\<lambda>_ w. (Inr (), w))"

text \<open>
  \<^verbatim>\<open>is_up_to_date\<close>: \<^verbatim>\<open>True\<close> when the command returns, \<^verbatim>\<open>False\<close> on a
  \<^verbatim>\<open>CalledProcessError\<close> with return code 1, which is raised again with any other code;
  no other exception is caught.
\<close>

definition is_up_to_date ::
  "ext \<Rightarrow> git_client \<Rightarrow> string \<Rightarrow> string \<Rightarrow> world \<Rightarrow> (error + bool) \<times> world" where
  "is_up_to_date x self branch remote w =
     (case git_run x False [''diff'', ''--staged'', ''--quiet'', remote @ ''/'' @ branch] w of
        (Inr _, w1) \<Rightarrow> (Inr True, w1)
      | (Inl (CalledProcessError returncode cmd), w1) \<Rightarrow>
          if returncode = 1 then (Inr False, w1)
          else (Inl (CalledProcessError returncode cmd), w1)
      | (Inl e, w1) \<Rightarrow> (Inl e, w1))"

definition stage_file :: "ext \<Rightarrow> git_client \<Rightarrow> string \<Rightarrow> world \<Rightarrow> (error + unit) \<times> world" where
  "stage_file x self p =
     bind_io (git_run x (dry_run self) [''add'', p]) (\<lambda>_ w. (Inr (), w))"

definition commit :: "ext \<Rightarrow> git_client \<Rightarrow> string \<Rightarrow> world \<Rightarrow> (error + unit) \<times> world" where
  "commit x self message =
     bind_io (git_run x (dry_run self) [''commit'', ''-m'', message]) (\<lambda>_ w. (Inr (), w))"

definition push_to_remote :: "ext \<Rightarrow> git_client \<Rightarrow> string \<Rightarrow> world \<Rightarrow> (error + unit) \<times> world" where
  "push_to_remote x self remote =
     bind_io (git_run x (dry_run self) [''push'', remote]) (\<lambda>_ w. (Inr (), w))"

section \<open>The file system calls\<close>

fun lookup :: "node option \<Rightarrow> path \<Rightarrow> node option" where
  "lookup n [] = n"
| "lookup None (c # p) = None"
| "lookup (Some (File u s)) (c # p) = None"
| "lookup (Some (Dir u es)) (c # p) = lookup (es c) p"

text \<open>
  \<open>alter p f n\<close> walks from \<open>n\<close> down the path \<open>p\<close> and replaces what is there (a node,
  or nothing) by what \<open>f\<close> returns; the walk itself fails on a missing component and on
  a file among the ancestors.
\<close>

fun alter :: "path \<Rightarrow> (node option \<Rightarrow> error + node option) \<Rightarrow> node option \<Rightarrow> error + node option" where
  "alter [] f n = f n"
| "alter (c # p) f None = Inl (EnvironmentError ''ENOENT'')"
| "alter (c # p) f (Some (File u s)) = Inl (EnvironmentError ''ENOTDIR'')"
| "alter (c # p) f (Some (Dir u es)) =
     (case alter p f (es c) of Inl e \<Rightarrow> Inl e | Inr r \<Rightarrow> Inr (Some (Dir u (es(c := r)))))"

definition fs_alter ::
  "path \<Rightarrow> (node option \<Rightarrow> error + node option) \<Rightarrow> world \<Rightarrow> (error + unit) \<times> world" where
  "fs_alter p f w =
     (case alter p f (Some (fs w)) of
        Inl e \<Rightarrow> (Inl e, w)
      | Inr None \<Rightarrow> (Inl (EnvironmentError ''EINVAL''), w)
      | Inr (Some n) \<Rightarrow> (Inr (), w\<lparr>fs := n\<rparr>))"

text \<open>\<^verbatim>\<open>os.path.exists\<close> and \<^verbatim>\<open>os.stat(p).st_uid\<close>.\<close>

definition path_exists :: "world \<Rightarrow> path \<Rightarrow> bool" where
  "path_exists w p = (lookup (Some (fs w)) p \<noteq> None)"

fun owner_of :: "node \<Rightarrow> nat" where
  "owner_of (File u s) = u"
| "owner_of (Dir u es) = u"

definition st_uid :: "node \<Rightarrow> path \<Rightarrow> nat option" where
  "st_uid n p = map_option owner_of (lookup (Some n) p)"

definition os_stat_uid :: "path \<Rightarrow> world \<Rightarrow> (error + nat) \<times> world" where
  "os_stat_uid p w =
     (case st_uid (fs w) p of None \<Rightarrow> (Inl (EnvironmentError ''ENOENT''), w) | Some u \<Rightarrow> (Inr u, w))"

text \<open>
  \<^verbatim>\<open>shutil.rmtree\<close>: a directory goes with everything below it; a file or a missing path
  is an error. The working directory itself is emptied but cannot be removed.
\<close>

fun rmtree_entry :: "node option \<Rightarrow> error + node option" where
  "rmtree_entry None = Inl (EnvironmentError ''ENOENT'')"
| "rmtree_entry (Some (File u s)) = Inl (EnvironmentError ''ENOTDIR'')"
| "rmtree_entry (Some (Dir u es)) = Inr None"

definition rmtree :: "path \<Rightarrow> world \<Rightarrow> (error + unit) \<times> world" where
  "rmtree p w =
     (if p = []
      then (case fs w of
              File u s \<Rightarrow> (Inl (EnvironmentError ''ENOTDIR''), w)
            | Dir u es \<Rightarrow> (Inl (EnvironmentError ''EINVAL''), w\<lparr>fs := Dir u (\<lambda>c. None)\<rparr>))
      else fs_alter p rmtree_entry w)"

text \<open>
  \<^verbatim>\<open>os.makedirs\<close>: the missing directories of the path are created, owned by the process;
  it is an error when the path exists already or an ancestor is a file.
\<close>

fun makedirs_from :: "nat \<Rightarrow> path \<Rightarrow> node option \<Rightarrow> error + node option" where
  "makedirs_from u [] None = Inr (Some (Dir u (\<lambda>c. None)))"
| "makedirs_from u [] (Some n) = Inl (EnvironmentError ''EEXIST'')"
| "makedirs_from u (c # p) None =
     (case makedirs_from u p None of
        Inl e \<Rightarrow> Inl e
      | Inr r \<Rightarrow> Inr (Some (Dir u ((\<lambda>c. None)(c := r)))))"
| "makedirs_from u (c # p) (Some (File v s)) = Inl (EnvironmentError ''ENOTDIR'')"
| "makedirs_from u (c # p) (Some (Dir v es)) =
     (case makedirs_from u p (es c) of
        Inl e \<Rightarrow> Inl e
      | Inr r \<Rightarrow> Inr (Some (Dir v (es(c := r)))))"

definition makedirs :: "path \<Rightarrow> world \<Rightarrow> (error + unit) \<times> world" where
  "makedirs p w =
     (case makedirs_from (uid w) p (Some (fs w)) of
        Inl e \<Rightarrow> (Inl e, w)
      | Inr None \<Rightarrow> (Inl (EnvironmentError ''EINVAL''), w)
      | Inr (Some n) \<Rightarrow> (Inr (), w\<lparr>fs := n\<rparr>))"

text \<open>
  \<^verbatim>\<open>open(file, "w")\<close> followed by \<^verbatim>\<open>write\<close>: a new file is owned by the process, an
  existing file keeps its owner and gets the new content, a directory cannot be opened.
\<close>

fun write_entry :: "nat \<Rightarrow> string \<Rightarrow> node option \<Rightarrow> error + node option" where
  "write_entry u s None = Inr (Some (File u s))"
| "write_entry u s (Some (File v old)) = Inr (Some (File v s))"
| "write_entry u s (Some (Dir v es)) = Inl (EnvironmentError ''EISDIR'')"

definition write_file :: "path \<Rightarrow> string \<Rightarrow> world \<Rightarrow> (error + unit) \<times> world" where
  "write_file p s w = fs_alter p (write_entry (uid w) s) w"

text \<open>\<^verbatim>\<open>os.chown(p, owner, -1)\<close>: the owner of the one path changes, the group is kept.\<close>

fun set_owner :: "nat \<Rightarrow> node \<Rightarrow> node" where
  "set_owner owner (File u s) = File owner s"
| "set_owner owner (Dir u es) = Dir owner es"

fun chown_entry :: "nat \<Rightarrow> node option \<Rightarrow> error + node option" where
  "chown_entry owner None = Inl (EnvironmentError ''ENOENT'')"
| "chown_entry owner (Some n) = Inr (Some (set_owner owner n))"

definition os_chown :: "path \<Rightarrow> nat \<Rightarrow> world \<Rightarrow> (error + unit) \<times> world" where
  "os_chown p owner w = fs_alter p (chown_entry owner) w"

text \<open>
  The loop
  \<^verbatim>\<open>for (dirpath, dirs, files) in os.walk(directory): for file in dirs + files: os.chown(os.path.join(dirpath, file), owner, -1)\<close>:
  \<^verbatim>\<open>os.walk\<close> visits the directory and every directory below it, and every entry of a
  visited directory is given the owner. It yields nothing for a file or a missing path.
\<close>

primrec chown_walk :: "nat \<Rightarrow> node \<Rightarrow> node" where
  "chown_walk owner (File u s) = File u s"
| "chown_walk owner (Dir u es) =
     Dir u (\<lambda>c. map_option (\<lambda>n. set_owner owner (chown_walk owner n)) (es c))"

fun walk_entry :: "nat \<Rightarrow> node option \<Rightarrow> error + node option" where
  "walk_entry owner None = Inr None"
| "walk_entry owner (Some n) = Inr (Some (chown_walk owner n))"

definition chown_below :: "path \<Rightarrow> nat \<Rightarrow> world \<Rightarrow> (error + unit) \<times> world" where
  "chown_below p owner w =
     (case alter p (walk_entry owner) (Some (fs w)) of
        Inr (Some n) \<Rightarrow> (Inr (), w\<lparr>fs := n\<rparr>)
      | _ \<Rightarrow> (Inr (), w))"

section \<open>Authenticator\<close>

record authenticator =
  cfg_root :: path
  cfg_remote :: string
  cfg_branch :: string
  cfg_staging :: bool
  cfg_http01_port :: nat
  git_client :: git_client

text \<open>\<^verbatim>\<open>_preflight\<close>.\<close>

definition preflight ::
  "ext \<Rightarrow> authenticator \<Rightarrow> path \<Rightarrow> string \<Rightarrow> string \<Rightarrow> world \<Rightarrow> (error + unit) \<times> world" where
  "preflight x self root remote branch w =
     (if \<not> path_exists w root
      then (Inl (PluginError (''The '' @ apos @ render root @ apos @ '' folder doesn'' @ apos @ ''t exist'')), w)
      else
        (case checked_out_branch x (git_client self) w of
           (Inl (CalledProcessError rc cmd), w1) \<Rightarrow>
             (Inl (PluginError ''Cannot identify a checked-out git branch''), w1)
         | (Inl e, w1) \<Rightarrow> (Inl e, w1)
         | (Inr current, w1) \<Rightarrow>
             (if current \<noteq> branch
              then (Inl (PluginError (''Working copy has '' @ apos @ current @ apos @
                                      '' checked out, not '' @ apos @ branch @ apos)), w1)
              else
                (case update_remote x (git_client self) remote w1 of
                   (Inl (CalledProcessError rc cmd), w2) \<Rightarrow>
                     (Inl (PluginError (''The '' @ apos @ remote @ apos @
                        '' git remote is not configured (use --heroku-remote to set a different one)'')), w2)
                 | (Inl e, w2) \<Rightarrow> (Inl e, w2)
                 | (Inr _, w2) \<Rightarrow>
                     (case is_up_to_date x (git_client self) branch remote w2 of
                        (Inl e, w3) \<Rightarrow> (Inl e, w3)
                      | (Inr up, w3) \<Rightarrow>
                          (if \<not> up
                           then (Inl (PluginError (''The working copy is out of date with the '' @ apos @
                                                   remote @ apos @ '' remote'')), w3)
                           else (Inr (), w3)))))))"

text \<open>\<^verbatim>\<open>_clear_directory\<close> and \<^verbatim>\<open>_write_challenge\<close>.\<close>

definition clear_directory :: "path \<Rightarrow> world \<Rightarrow> (error + unit) \<times> world" where
  "clear_directory directory w =
     (if path_exists w directory then rmtree directory w else (Inr (), w))"

definition write_challenge :: "achall \<Rightarrow> path \<Rightarrow> world \<Rightarrow> (error + unit) \<times> world" where
  "write_challenge a directory =
     bind_io (\<lambda>w. if \<not> path_exists w directory then makedirs directory w else (Inr (), w)) (\<lambda>_.
       write_file (directory @ [token a]) (validation a))"

text \<open>The loop \<^verbatim>\<open>for achall in achalls: self._write_challenge(achall, directory=directory)\<close>.\<close>

fun write_challenges :: "achall list \<Rightarrow> path \<Rightarrow> world \<Rightarrow> (error + unit) \<times> world" where
  "write_challenges [] directory = (\<lambda>w. (Inr (), w))"
| "write_challenges (a # as) directory =
     bind_io (write_challenge a directory) (\<lambda>_. write_challenges as directory)"

text \<open>The write phase of \<^verbatim>\<open>perform\<close>: the directory is cleared, then every challenge is written.\<close>

definition write_phase :: "achall list \<Rightarrow> path \<Rightarrow> world \<Rightarrow> (error + unit) \<times> world" where
  "write_phase achalls directory =
     bind_io (clear_directory directory) (\<lambda>_. write_challenges achalls directory)"

text \<open>
  \<^verbatim>\<open>_chown_challenges\<close>. The loop
  \<^verbatim>\<open>while root != os.path.dirname(directory): directory = os.path.dirname(directory)\<close>
  may run forever; \<open>None\<close> is not returning.
\<close>

partial_function (option) chown_top :: "path \<Rightarrow> path \<Rightarrow> path option" where
  "chown_top root directory =
     (if root \<noteq> dirname directory then chown_top root (dirname directory) else Some directory)"

declare chown_top.simps [code]

definition chown_challenges ::
  "path \<Rightarrow> path \<Rightarrow> nat \<Rightarrow> world \<Rightarrow> ((error + unit) \<times> world) option" where
  "chown_challenges root directory owner w =
     (case chown_top root directory of
        None \<Rightarrow> None
      | Some d \<Rightarrow> Some (bind_io (os_chown d owner) (\<lambda>_. chown_below d owner) w))"

text \<open>\<^verbatim>\<open>_commit\<close> and \<^verbatim>\<open>_deploy\<close>.\<close>

definition commit_challenges ::
  "ext \<Rightarrow> authenticator \<Rightarrow> path \<Rightarrow> world \<Rightarrow> (error + unit) \<times> world" where
  "commit_challenges x self directory =
     bind_io (stage_file x (git_client self) (render directory)) (\<lambda>_.
       let commit_message = ''Challenges for Let'' @ apos @ ''s Encrypt certificate'';
           commit_message = (if cfg_staging self then commit_message @ '' (testing only)''
                             else commit_message)
       in commit x (git_client self) commit_message)"

definition deploy :: "ext \<Rightarrow> authenticator \<Rightarrow> string \<Rightarrow> world \<Rightarrow> (error + unit) \<times> world" where
  "deploy x self remote =
     bind_io (log_msg DEBUG (''Pushing to '' @ apos @ remote @ apos @ ''...'')) (\<lambda>_.
       push_to_remote x (git_client self) remote)"

text \<open>
  \<^verbatim>\<open>_wait_for_challenge_validation\<close>. The loop
  \<^verbatim>\<open>while not response.simple_verify(...): time.sleep(10)\<close> inside
  \<^verbatim>\<open>try: ... except KeyboardInterrupt: pass\<close>: \<open>polls\<close> counts the calls of
  \<^verbatim>\<open>simple_verify\<close>, \<open>sleeps\<close> lists the seconds of every \<^verbatim>\<open>time.sleep\<close>.
\<close>

partial_function (option) verify_loop :: "ext \<Rightarrow> authenticator \<Rightarrow> achall \<Rightarrow> world \<Rightarrow> world option" where
  "verify_loop x self a w =
     (case simple_verify x (polls w) (response a) (token a) (domain a) (account_public_key a)
             (cfg_http01_port self) of
        Verified \<Rightarrow> Some (w\<lparr>polls := Suc (polls w)\<rparr>)
      | VerifyInterrupted \<Rightarrow> Some (w\<lparr>polls := Suc (polls w)\<rparr>)
      | NotVerified \<Rightarrow>
          (if sleep_interrupted x (length (sleeps w))
           then Some (w\<lparr>polls := Suc (polls w), sleeps := sleeps w @ [10]\<rparr>)
           else verify_loop x self a (w\<lparr>polls := Suc (polls w), sleeps := sleeps w @ [10]\<rparr>)))"

declare verify_loop.simps [code]

definition wait_for_challenge_validation ::
  "ext \<Rightarrow> authenticator \<Rightarrow> achall \<Rightarrow> world \<Rightarrow> ((error + string) \<times> world) option" where
  "wait_for_challenge_validation x self a =
     bind_pio (total (log_msg WARNING (''Verifying challenge for '' @ domain a @
        ''. This might take a few minutes if your app is restarting. (Ctrl-C to skip.)''))) (\<lambda>_ w.
       case verify_loop x self a w of None \<Rightarrow> None | Some w' \<Rightarrow> Some (Inr (response a), w'))"

text \<open>The loop \<^verbatim>\<open>for achall in achalls: responses.append(...)\<close>.\<close>

fun wait_all ::
  "ext \<Rightarrow> authenticator \<Rightarrow> achall list \<Rightarrow> string list \<Rightarrow> world \<Rightarrow> ((error + string list) \<times> world) option" where
  "wait_all x self [] responses = (\<lambda>w. Some (Inr responses, w))"
| "wait_all x self (a # as) responses =
     bind_pio (wait_for_challenge_validation x self a) (\<lambda>r. wait_all x self as (responses @ [r]))"

text \<open>\<^verbatim>\<open>perform\<close>; \<^verbatim>\<open>achalls[0]\<close> of an empty list raises \<^verbatim>\<open>IndexError\<close>.\<close>

definition perform ::
  "ext \<Rightarrow> authenticator \<Rightarrow> achall list \<Rightarrow> world \<Rightarrow> ((error + string list) \<times> world) option" where
  "perform x self achalls =
     (let root = cfg_root self; remote = cfg_remote self; branch = cfg_branch self in
      bind_pio (total (preflight x self root remote branch)) (\<lambda>_.
      bind_pio (total (os_stat_uid root)) (\<lambda>owner.
      bind_pio (total (\<lambda>w. case achalls of [] \<Rightarrow> (Inl IndexError, w)
                                          | a # _ \<Rightarrow> (Inr (root @ URI_ROOT_PATH a), w))) (\<lambda>directory.
      bind_pio (total (write_phase achalls directory)) (\<lambda>_.
      bind_pio (chown_challenges root directory owner) (\<lambda>_.
      bind_pio (total (log_msg WARNING ''Committing and pushing challenges to Heroku...'')) (\<lambda>_.
      bind_pio (total (commit_challenges x self directory)) (\<lambda>_.
      bind_pio (total (deploy x self remote)) (\<lambda>_.
      bind_pio (total (log_msg WARNING '' '')) (\<lambda>_.
      wait_all x self achalls []))))))))))"

section \<open>Notions of the statements\<close>

text \<open>The argument vector of a git command after \<open>resudoed\<close>, for the user \<open>u\<close>.\<close>

definition sudo_git :: "string \<Rightarrow> string list \<Rightarrow> string list" where
  "sudo_git u args = [''sudo'', ''-u'', u, ''git''] @ args"

text \<open>The world after \<^verbatim>\<open>Command.run\<close> has logged and run the git command \<open>args\<close>.\<close>

definition ran :: "string \<Rightarrow> string list \<Rightarrow> world \<Rightarrow> world" where
  "ran u args w =
     w\<lparr>logged := logged w @ [(DEBUG, ''Running: '' @ command_str w (Command (sudo_git u args)))],
       executed := executed w @ [sudo_git u args]\<rparr>"

text \<open>\<open>trace_only w w'\<close>: the world \<open>w'\<close> differs from \<open>w\<close> in the log and the list of commands run, at most.\<close>

definition trace_only :: "world \<Rightarrow> world \<Rightarrow> bool" where
  "trace_only w w' = (w' = w\<lparr>logged := logged w', executed := executed w'\<rparr>)"

text \<open>
  The answer of call number \<open>k\<close> of the verifier for a challenge; \<open>pending\<close>: the next
  \<open>n\<close> calls answer false and the sleep after each is not interrupted; \<open>polled n k\<close>:
  the world after \<open>n\<close> more calls and \<open>k\<close> more sleeps; \<open>verifying\<close>: the world after
  the warning that the wait logs first.
\<close>

definition outcome :: "ext \<Rightarrow> authenticator \<Rightarrow> achall \<Rightarrow> nat \<Rightarrow> verify_outcome" where
  "outcome x self a k =
     simple_verify x k (response a) (token a) (domain a) (account_public_key a) (cfg_http01_port self)"

definition pending :: "ext \<Rightarrow> authenticator \<Rightarrow> achall \<Rightarrow> world \<Rightarrow> nat \<Rightarrow> bool" where
  "pending x self a w n =
     list_all (\<lambda>i. outcome x self a (polls w + i) = NotVerified \<and>
                    \<not> sleep_interrupted x (length (sleeps w) + i)) [0..<n]"

definition polled :: "nat \<Rightarrow> nat \<Rightarrow> world \<Rightarrow> world" where
  "polled n k w = w\<lparr>polls := polls w + n, sleeps := sleeps w @ replicate k 10\<rparr>"

definition verifying :: "achall \<Rightarrow> world \<Rightarrow> world" where
  "verifying a w =
     w\<lparr>logged := logged w @ [(WARNING, ''Verifying challenge for '' @ domain a @
        ''. This might take a few minutes if your app is restarting. (Ctrl-C to skip.)'')]\<rparr>"




text \<open>The entries of a directory that holds one file per challenge, owned by \<open>u\<close>.\<close>

definition challenge_files :: "nat \<Rightarrow> achall list \<Rightarrow> string \<Rightarrow> node option" where
  "challenge_files u achalls = map_of (map (\<lambda>a. (token a, File u (validation a))) achalls)"




section \<open>Example states\<close>

definition example_cloud :: cloud where
  "example_cloud =
     \<lparr>app_name = ''shop'',
      domains = [\<lparr>hostname = ''shop.herokuapp.com''\<rparr>, \<lparr>hostname = ''www.example.com''\<rparr>,
                 \<lparr>hostname = ''example.com''\<rparr>, \<lparr>hostname = ''www.example.com''\<rparr>],
      ssl_endpoints =
        [\<lparr>ep_name = ''tokyo-1'', certificate_chain = ''c1'', private_key = ''k1''\<rparr>,
         \<lparr>ep_name = ''tokyo-2'', certificate_chain = ''c2'', private_key = ''k2''\<rparr>,
         \<lparr>ep_name = ''tokyo-3'', certificate_chain = ''c3'', private_key = ''k3''\<rparr>],
      requests = [],
      patch_status = 200,
      app_logged = []\<rparr>"

definition example_fs :: node where
  "example_fs =
     Dir 1000 [''public'' \<mapsto>
       Dir 1000 [''index.html'' \<mapsto> File 1000 ''hello'',
                 ''.well-known'' \<mapsto>
                   Dir 0 [''security.txt'' \<mapsto> File 0 ''contact'',
                          ''acme-challenge'' \<mapsto> Dir 0 [''stale'' \<mapsto> File 0 ''old'']]]]"

definition example_world :: world where
  "example_world =
     \<lparr>fs = example_fs, uid = 0, environ = [''SUDO_USER'' \<mapsto> ''alice''],
      executed = [], logged = [], polls = 0, sleeps = []\<rparr>"

text \<open>
  A working copy with \<open>head\<close> checked out, whose staged diff against the remote exits
  with \<open>diff_status\<close>, and a verifier that answers true from its call number \<open>n\<close> on.
\<close>

definition example_ext :: "string \<Rightarrow> int \<Rightarrow> nat \<Rightarrow> ext" where
  "example_ext head diff_status n =
     \<lparr>subprocess = (\<lambda>history argv.
        if ''symbolic-ref'' \<in> set argv then Exited 0 (head @ [CHR 0x0A])
        else if ''diff'' \<in> set argv then Exited diff_status []
        else Exited 0 []),
      simple_verify = (\<lambda>k r t d key port. if k < n then NotVerified else Verified),
      sleep_interrupted = (\<lambda>k. False)\<rparr>"

definition example_auth :: authenticator where
  "example_auth =
     \<lparr>cfg_root = [''public''], cfg_remote = ''heroku'', cfg_branch = ''master'',
      cfg_staging = False, cfg_http01_port = 80, git_client = \<lparr>dry_run = False\<rparr>\<rparr>"

definition example_achall :: "string \<Rightarrow> achall" where
  "example_achall t =
     \<lparr>URI_ROOT_PATH = [''.well-known'', ''acme-challenge''], token = t,
      response = ''response-'' @ t, validation = t @ ''.thumbprint'',
      domain = ''www.example.com'', account_public_key = ''jwk''\<rparr>"

text \<open>A working copy without the \<^verbatim>\<open>public\<close> folder.\<close>

definition example_bare_world :: world where
  "example_bare_world = example_world\<lparr>fs := Dir 1000 [''README'' \<mapsto> File 1000 ''readme'']\<rparr>"

text \<open>The application with one TLS endpoint.\<close>

definition example_cloud_one :: cloud where
  "example_cloud_one =
     example_cloud\<lparr>ssl_endpoints :=
       [\<lparr>ep_name = ''tokyo-1'', certificate_chain = ''c1'', private_key = ''k1''\<rparr>]\<rparr>"

text \<open>A verifier that never answers true, an interrupt in the second sleep, an interrupt in the second call.\<close>

definition example_ext_never :: ext where
  "example_ext_never =
     (example_ext ''master'' 0 0)\<lparr>simple_verify := (\<lambda>k r t d key port. NotVerified)\<rparr>"

definition example_ext_ctrl_c :: ext where
  "example_ext_ctrl_c = example_ext_never\<lparr>sleep_interrupted := (\<lambda>k. k = 1)\<rparr>"

definition example_ext_verify_ctrl_c :: ext where
  "example_ext_verify_ctrl_c =
     (example_ext ''master'' 0 0)\<lparr>simple_verify :=
        (\<lambda>k r t d key port. if k < 1 then NotVerified else VerifyInterrupted)\<rparr>"

text \<open>The challenge directory of the example and two challenges.\<close>

definition example_directory :: path where
  "example_directory = [''public'', ''.well-known'', ''acme-challenge'']"

definition example_achalls :: "achall list" where
  "example_achalls = [example_achall ''tok1'', example_achall ''tok2'']"

section \<open>String helpers\<close>

lemma endswith_suffix: "endswith s suf = suffix suf s"
proof
  assume "endswith s suf"
  then have "s = take (length s - length suf) s @ suf"
    by (metis append_take_drop_id endswith_def)
  then show "suffix suf s"
    by (rule suffixI)
next
  assume "suffix suf s"
  then obtain zs where "s = zs @ suf"
    by (auto simp: suffix_def)
  then show "endswith s suf"
    by (simp add: endswith_def)
qed

section \<open>Custom domains\<close>

lemma count_list_filter:
  "count_list (filter P xs) x = (if P x then count_list xs x else 0)"
  by (induction xs) auto

lemma filter_map_hostname:
  "map hostname (filter (\<lambda>d. P (hostname d)) ds) = filter P (map hostname ds)"
  by (induction ds) auto

lemma get_domains_filter:
  "fst (get_domains c) =
     filter (\<lambda>h. \<not> suffix ''.herokuapp.com'' h) (map hostname (domains c))"
  unfolding get_domains_def api_domains_def Let_def split_conv fst_conv endswith_suffix
  by (rule filter_map_hostname)

text \<open>
  C8. The list returned by \<open>get_domains\<close> holds every fetched hostname that does not
  end with \<^verbatim>\<open>.herokuapp.com\<close> as many times as the fetched list does, holds no hostname
  that ends with it, and keeps the order of the fetched list.
\<close>

theorem get_domains_custom_hostnames:
  "count_list (fst (get_domains c)) h =
     (if suffix ''.herokuapp.com'' h then 0 else count_list (map hostname (domains c)) h)
   \<and> subseq (fst (get_domains c)) (map hostname (domains c))"
  unfolding get_domains_filter by (simp add: count_list_filter)

theorem get_domains_custom_hostnames_witness:
  "fst (get_domains example_cloud) = [''www.example.com'', ''example.com'', ''www.example.com'']
   \<and> count_list (fst (get_domains example_cloud)) ''www.example.com'' = 2
   \<and> count_list (fst (get_domains example_cloud)) ''shop.herokuapp.com'' = 0"
proof -
  have ds: "map hostname (domains example_cloud) =
      [''shop.herokuapp.com'', ''www.example.com'', ''example.com'', ''www.example.com'']"
    by (simp add: example_cloud_def)
  have l: "fst (get_domains example_cloud) =
      [''www.example.com'', ''example.com'', ''www.example.com'']"
    by (simp add: get_domains_def api_domains_def example_cloud_def endswith_def)
  have a: "count_list (fst (get_domains example_cloud)) ''www.example.com'' = 2"
    using get_domains_custom_hostnames [of example_cloud "''www.example.com''"]
    unfolding ds by (simp add: endswith_suffix [symmetric] endswith_def)
  have b: "count_list (fst (get_domains example_cloud)) ''shop.herokuapp.com'' = 0"
    using get_domains_custom_hostnames [of example_cloud "''shop.herokuapp.com''"]
    by (simp add: endswith_suffix [symmetric] endswith_def)
  from l a b show ?thesis by simp
qed

section \<open>The certificate installer\<close>

lemma uncertain_message_raises: "uncertain_message n = Inl (AttributeError ''num_endpoint'')"
  by (simp add: uncertain_message_def uncertain_str_method_def uncertain_attrs_def getattr_def
      bind_err_def py_str_def)

lemma update_certificate_uncertain:
  "length (ssl_endpoints c) \<noteq> 1 \<Longrightarrow>
   update_certificate self key certificate c =
     (Inl (UncertainSSLEndpointError (length (ssl_endpoints c))),
      c\<lparr>requests := requests c @ [GET [''apps'', app_name c, ''ssl-endpoints'']]\<rparr>)"
  by (simp add: update_certificate_def api_ssl_endpoints_def)

text \<open>
  C2. With three endpoints \<open>update_certificate\<close> raises \<open>UncertainSSLEndpointError\<close>
  carrying the count 3 and sends nothing but the fetch, so the endpoints stay as they
  are; but the message of that error cannot be read: \<^verbatim>\<open>__str__\<close> looks up the attribute
  \<^verbatim>\<open>num_endpoint\<close>, which \<^verbatim>\<open>__init__\<close> never sets, and raises \<^verbatim>\<open>AttributeError\<close> instead of
  returning the text "The application has 3 endpoints, not 1.".
\<close>

theorem update_certificate_three_endpoints:
  "update_certificate self key certificate example_cloud =
     (Inl (UncertainSSLEndpointError 3),
      example_cloud\<lparr>requests := [GET [''apps'', ''shop'', ''ssl-endpoints'']]\<rparr>)
   \<and> uncertain_message 3 = Inl (AttributeError ''num_endpoint'')"
  by (simp add: update_certificate_def api_ssl_endpoints_def example_cloud_def
      uncertain_message_raises)

section \<open>Running git\<close>

lemma git_run_unset:
  "environ w ''SUDO_USER'' = None \<Longrightarrow> git_run x d args w = (Inl (KeyError ''SUDO_USER''), w)"
  by (simp add: git_run_def git_def resudoed_def)

lemma git_run_dry:
  "environ w ''SUDO_USER'' = Some u \<Longrightarrow>
   git_run x True args w =
     (Inr None, w\<lparr>logged := logged w @
        [(WARNING, ''Would run: '' @ command_str w (Command (sudo_git u args)))]\<rparr>)"
  by (simp add: git_run_def git_def resudoed_def run_def bind_io_def log_msg_def sudo_git_def)

lemma git_run_exec:
  "environ w ''SUDO_USER'' = Some u \<Longrightarrow>
   git_run x False args w =
     (let w1 = w\<lparr>logged := logged w @
                  [(DEBUG, ''Running: '' @ command_str w (Command (sudo_git u args)))],
                executed := executed w @ [sudo_git u args]\<rparr>
      in case subprocess x (executed w) (sudo_git u args) of
           NotStarted \<Rightarrow> (Inl (EnvironmentError ''ENOENT''), w1)
         | Exited rc out \<Rightarrow>
             if rc = 0 then (Inr (Some out), w1)
             else (Inl (CalledProcessError rc (sudo_git u args)), w1))"
  by (simp add: git_run_def git_def resudoed_def run_def bind_io_def log_msg_def sudo_git_def
      check_output_def Let_def split: proc_result.splits)

section \<open>Privilege drop\<close>

lemma resudoed_unset:
  "environ w ''SUDO_USER'' = None \<Longrightarrow> resudoed w c = Inl (KeyError ''SUDO_USER'')"
  by (simp add: resudoed_def)

text \<open>
  C9 (as amended). Whenever the environment names a user in \<^verbatim>\<open>SUDO_USER\<close>, \<open>resudoed\<close>
  returns the command wrapped as \<^verbatim>\<open>sudo -u user ...\<close>, whatever the user id of the process:
  a privileged user is not required.
\<close>

theorem resudoed_wraps:
  "environ w ''SUDO_USER'' = Some u \<Longrightarrow>
   resudoed w c = Inr (Command ([''sudo'', ''-u'', u] @ arguments c))
   \<and> resudoed (w\<lparr>uid := k\<rparr>) c = resudoed w c"
  by (simp add: resudoed_def)

theorem resudoed_wraps_witness:
  "environ example_world ''SUDO_USER'' = Some ''alice''
   \<and> resudoed example_world (Command [''git'', ''push'', ''heroku'']) =
       Inr (Command [''sudo'', ''-u'', ''alice'', ''git'', ''push'', ''heroku''])"
proof -
  have e: "environ example_world ''SUDO_USER'' = Some ''alice''"
    by (simp add: example_world_def)
  from resudoed_wraps [OF e, of "Command [''git'', ''push'', ''heroku'']"] e
  show ?thesis by simp
qed

text \<open>
  C9 as stated fails: for a process that is not privileged (user id 1000) the command
  is wrapped all the same, not returned unchanged.
\<close>

theorem resudoed_unprivileged_counterexample:
  "uid (example_world\<lparr>uid := 1000\<rparr>) = 1000
   \<and> environ (example_world\<lparr>uid := 1000\<rparr>) ''SUDO_USER'' = Some ''alice''
   \<and> resudoed (example_world\<lparr>uid := 1000\<rparr>) (Command [''git'', ''push'', ''heroku'']) =
       Inr (Command [''sudo'', ''-u'', ''alice'', ''git'', ''push'', ''heroku''])
   \<and> resudoed (example_world\<lparr>uid := 1000\<rparr>) (Command [''git'', ''push'', ''heroku'']) \<noteq>
       Inr (Command [''git'', ''push'', ''heroku''])"
  by (simp add: resudoed_def example_world_def)

section \<open>Preflight\<close>

lemma perform_preflight_fails:
  "preflight x self (cfg_root self) (cfg_remote self) (cfg_branch self) w = (Inl e, w') \<Longrightarrow>
   perform x self achalls w = Some (Inl e, w')"
  by (simp add: perform_def bind_pio_def total_def Let_def)

lemma is_up_to_date_status:
  assumes "environ w ''SUDO_USER'' = Some u"
    and "subprocess x (executed w) (sudo_git u [''diff'', ''--staged'', ''--quiet'', remote @ ''/'' @ branch])
           = Exited rc out"
  shows "fst (is_up_to_date x gc branch remote w) =
           (if rc = 0 then Inr True else if rc = 1 then Inr False
            else Inl (CalledProcessError rc
                   (sudo_git u [''diff'', ''--staged'', ''--quiet'', remote @ ''/'' @ branch])))"
  using assms by (simp add: is_up_to_date_def git_run_exec Let_def)

lemma preflight_out_of_date:
  assumes "path_exists w root"
    and "checked_out_branch x (git_client self) w = (Inr branch, w1)"
    and "update_remote x (git_client self) remote w1 = (Inr (), w2)"
    and "is_up_to_date x (git_client self) branch remote w2 = (Inr False, w3)"
  shows "preflight x self root remote branch w =
     (Inl (PluginError (''The working copy is out of date with the '' @ apos @ remote @ apos @ '' remote'')), w3)"
  using assms by (simp add: preflight_def)

text \<open>
  C4. When the staged diff against \<open>remote/branch\<close> is run and exits with status \<open>rc\<close>,
  \<open>is_up_to_date\<close> returns true for 0, false for 1, and raises the
  \<open>CalledProcessError\<close> of the command for any other status; and when preflight reaches
  the check and it yields false, \<open>perform\<close> fails with the error that names the remote.
\<close>

theorem is_up_to_date_exit_status:
  "(environ w ''SUDO_USER'' = Some u \<and>
    subprocess x (executed w) (sudo_git u [''diff'', ''--staged'', ''--quiet'', remote @ ''/'' @ branch])
      = Exited rc out \<longrightarrow>
    fst (is_up_to_date x gc branch remote w) =
      (if rc = 0 then Inr True else if rc = 1 then Inr False
       else Inl (CalledProcessError rc
              (sudo_git u [''diff'', ''--staged'', ''--quiet'', remote @ ''/'' @ branch]))))
   \<and> (path_exists v (cfg_root self) \<and>
      checked_out_branch x (git_client self) v = (Inr (cfg_branch self), v1) \<and>
      update_remote x (git_client self) (cfg_remote self) v1 = (Inr (), v2) \<and>
      is_up_to_date x (git_client self) (cfg_branch self) (cfg_remote self) v2 = (Inr False, v3) \<longrightarrow>
      perform x self achalls v =
        Some (Inl (PluginError (''The working copy is out of date with the '' @ apos @
                                cfg_remote self @ apos @ '' remote'')), v3))"
proof (intro conjI impI)
  assume "environ w ''SUDO_USER'' = Some u \<and>
    subprocess x (executed w) (sudo_git u [''diff'', ''--staged'', ''--quiet'', remote @ ''/'' @ branch])
      = Exited rc out"
  then show "fst (is_up_to_date x gc branch remote w) =
      (if rc = 0 then Inr True else if rc = 1 then Inr False
       else Inl (CalledProcessError rc
              (sudo_git u [''diff'', ''--staged'', ''--quiet'', remote @ ''/'' @ branch])))"
    by (simp add: is_up_to_date_status)
next
  assume "path_exists v (cfg_root self) \<and>
      checked_out_branch x (git_client self) v = (Inr (cfg_branch self), v1) \<and>
      update_remote x (git_client self) (cfg_remote self) v1 = (Inr (), v2) \<and>
      is_up_to_date x (git_client self) (cfg_branch self) (cfg_remote self) v2 = (Inr False, v3)"
  then have "preflight x self (cfg_root self) (cfg_remote self) (cfg_branch self) v =
     (Inl (PluginError (''The working copy is out of date with the '' @ apos @
                        cfg_remote self @ apos @ '' remote'')), v3)"
    by (simp add: preflight_out_of_date)
  then show "perform x self achalls v =
        Some (Inl (PluginError (''The working copy is out of date with the '' @ apos @
                                cfg_remote self @ apos @ '' remote'')), v3)"
    by (rule perform_preflight_fails)
qed

lemma environ_example: "environ example_world ''SUDO_USER'' = Some ''alice''"
  by (simp add: example_world_def)

lemma ran_simps [simp]:
  "fs (ran u args w) = fs w" "uid (ran u args w) = uid w" "environ (ran u args w) = environ w"
  "executed (ran u args w) = executed w @ [sudo_git u args]"
  "polls (ran u args w) = polls w" "sleeps (ran u args w) = sleeps w"
  "path_exists (ran u args w) p = path_exists w p"
  by (simp_all add: ran_def path_exists_def)

lemma git_run_exited:
  assumes "environ w ''SUDO_USER'' = Some u"
    and "subprocess x (executed w) (sudo_git u args) = Exited rc out"
  shows "git_run x False args w =
     (if rc = 0 then Inr (Some out) else Inl (CalledProcessError rc (sudo_git u args)), ran u args w)"
  using assms by (simp add: git_run_exec ran_def)

lemma checked_out_branch_exited:
  assumes "environ w ''SUDO_USER'' = Some u"
    and "subprocess x (executed w) (sudo_git u [''symbolic-ref'', ''--short'', ''-q'', ''HEAD'']) = Exited rc out"
  shows "checked_out_branch x gc w =
     (if rc = 0 then Inr (rstrip out)
      else Inl (CalledProcessError rc (sudo_git u [''symbolic-ref'', ''--short'', ''-q'', ''HEAD''])),
      ran u [''symbolic-ref'', ''--short'', ''-q'', ''HEAD''] w)"
  using assms by (simp add: checked_out_branch_def bind_io_def git_run_exited)

lemma update_remote_exited:
  assumes "environ w ''SUDO_USER'' = Some u"
    and "subprocess x (executed w) (sudo_git u [''remote'', ''update'', remote]) = Exited rc out"
  shows "update_remote x gc remote w =
     (if rc = 0 then Inr ()
      else Inl (CalledProcessError rc (sudo_git u [''remote'', ''update'', remote])),
      ran u [''remote'', ''update'', remote] w)"
  using assms by (simp add: update_remote_def bind_io_def git_run_exited)

lemma is_up_to_date_exited:
  assumes "environ w ''SUDO_USER'' = Some u"
    and "subprocess x (executed w) (sudo_git u [''diff'', ''--staged'', ''--quiet'', remote @ ''/'' @ branch])
           = Exited rc out"
  shows "is_up_to_date x gc branch remote w =
           (if rc = 0 then Inr True else if rc = 1 then Inr False
            else Inl (CalledProcessError rc
                   (sudo_git u [''diff'', ''--staged'', ''--quiet'', remote @ ''/'' @ branch])),
            ran u [''diff'', ''--staged'', ''--quiet'', remote @ ''/'' @ branch] w)"
  using assms by (simp add: is_up_to_date_def git_run_exited)

lemma example_ext_simps:
  "subprocess (example_ext h d n) hist (sudo_git u [''symbolic-ref'', ''--short'', ''-q'', ''HEAD''])
     = Exited 0 (h @ [CHR 0x0A])"
  "subprocess (example_ext h d n) hist (sudo_git ''alice'' [''remote'', ''update'', ''heroku'']) = Exited 0 []"
  "subprocess (example_ext h d n) hist (sudo_git ''alice'' [''diff'', ''--staged'', ''--quiet'', ''heroku/master''])
     = Exited d []"
  by (simp_all add: example_ext_def sudo_git_def)

lemma example_root_exists: "path_exists example_world [''public'']"
  by (simp add: path_exists_def example_world_def example_fs_def)

theorem is_up_to_date_exit_status_witness:
  "fst (is_up_to_date (example_ext ''master'' 0 0) (git_client example_auth) ''master'' ''heroku'' example_world)
     = Inr True
   \<and> fst (is_up_to_date (example_ext ''master'' 1 0) (git_client example_auth) ''master'' ''heroku'' example_world)
     = Inr False
   \<and> fst (is_up_to_date (example_ext ''master'' 128 0) (git_client example_auth) ''master'' ''heroku'' example_world)
     = Inl (CalledProcessError 128 [''sudo'', ''-u'', ''alice'', ''git'', ''diff'', ''--staged'', ''--quiet'', ''heroku/master''])
   \<and> map_option fst (perform (example_ext ''master'' 1 0) example_auth [example_achall ''tok''] example_world)
     = Some (Inl (PluginError (''The working copy is out of date with the '' @ apos @ ''heroku'' @ apos @ '' remote'')))"
proof -
  let ?gc = "git_client example_auth"
  let ?x = "example_ext ''master'' 1 0"
  let ?v1 = "ran ''alice'' [''symbolic-ref'', ''--short'', ''-q'', ''HEAD''] example_world"
  let ?v2 = "ran ''alice'' [''remote'', ''update'', ''heroku''] ?v1"
  let ?v3 = "ran ''alice'' [''diff'', ''--staged'', ''--quiet'', ''heroku/master''] ?v2"
  have sub: "\<And>d. subprocess (example_ext ''master'' d 0) (executed example_world)
        (sudo_git ''alice'' [''diff'', ''--staged'', ''--quiet'', ''heroku'' @ ''/'' @ ''master'']) = Exited d []"
    using example_ext_simps(3) by simp
  have a: "fst (is_up_to_date (example_ext ''master'' 0 0) ?gc ''master'' ''heroku'' example_world) = Inr True"
    using is_up_to_date_exit_status [THEN conjunct1, rule_format, OF conjI, OF environ_example sub [of 0]]
    by simp
  have b: "fst (is_up_to_date ?x ?gc ''master'' ''heroku'' example_world) = Inr False"
    using is_up_to_date_exit_status [THEN conjunct1, rule_format, OF conjI, OF environ_example sub [of 1]]
    by simp
  have c: "fst (is_up_to_date (example_ext ''master'' 128 0) ?gc ''master'' ''heroku'' example_world)
     = Inl (CalledProcessError 128 [''sudo'', ''-u'', ''alice'', ''git'', ''diff'', ''--staged'', ''--quiet'', ''heroku/master''])"
    using is_up_to_date_exit_status [THEN conjunct1, rule_format, OF conjI, OF environ_example sub [of 128]]
    by (simp add: sudo_git_def)
  have h1: "path_exists example_world (cfg_root example_auth)"
    using example_root_exists by (simp add: example_auth_def)
  have h2: "checked_out_branch ?x ?gc example_world = (Inr (cfg_branch example_auth), ?v1)"
    by (simp add: checked_out_branch_exited [OF environ_example example_ext_simps(1)]
        rstrip_def whitespace_def example_auth_def)
  have h3: "update_remote ?x ?gc (cfg_remote example_auth) ?v1 = (Inr (), ?v2)"
    using update_remote_exited [of ?v1 "''alice''" ?x "''heroku''" 0 "[]" ?gc]
    by (simp add: environ_example example_ext_simps example_auth_def)
  have h4: "is_up_to_date ?x ?gc (cfg_branch example_auth) (cfg_remote example_auth) ?v2 = (Inr False, ?v3)"
    using is_up_to_date_exited [of ?v2 "''alice''" ?x "''heroku''" "''master''" 1 "[]" ?gc]
    by (simp add: environ_example example_ext_simps example_auth_def)
  have d: "perform ?x example_auth [example_achall ''tok''] example_world =
      Some (Inl (PluginError (''The working copy is out of date with the '' @ apos @
                                cfg_remote example_auth @ apos @ '' remote'')), ?v3)"
    using is_up_to_date_exit_status [THEN conjunct2, rule_format, OF conjI, OF h1 conjI, OF h2 conjI, OF h3 h4]
    by simp
  from a b c d show ?thesis by (simp add: example_auth_def)
qed

lemma checked_out_branch_result:
  assumes "checked_out_branch x gc w = (Inr A, w1)"
  shows "\<exists>u. environ w ''SUDO_USER'' = Some u \<and> w1 = ran u [''symbolic-ref'', ''--short'', ''-q'', ''HEAD''] w"
proof (cases "environ w ''SUDO_USER''")
  case None
  with assms show ?thesis
    by (simp add: checked_out_branch_def bind_io_def git_run_unset)
next
  case (Some u)
  with assms show ?thesis
    by (auto simp: checked_out_branch_def bind_io_def git_run_exec ran_def Let_def
        split: proc_result.splits if_splits)
qed

lemma preflight_wrong_branch:
  assumes "path_exists w root"
    and "checked_out_branch x (git_client self) w = (Inr A, w1)"
    and "A \<noteq> branch"
  shows "preflight x self root remote branch w =
     (Inl (PluginError (''Working copy has '' @ apos @ A @ apos @
                        '' checked out, not '' @ apos @ branch @ apos)), w1)"
  using assms by (simp add: preflight_def)

lemma preflight_no_root:
  assumes "\<not> path_exists w root"
  shows "preflight x self root remote branch w =
     (Inl (PluginError (''The '' @ apos @ render root @ apos @ '' folder doesn'' @ apos @ ''t exist'')), w)"
  using assms by (simp add: preflight_def)

text \<open>
  C3 (as amended). Let the working copy have \<open>A\<close> checked out (what
  \<open>checked_out_branch\<close> returns) and the configured branch be another one. If the root
  folder exists, \<open>perform\<close> raises the error that names both branches; if it does not,
  \<open>perform\<close> raises the error about the folder, before the branch is looked at. In both
  cases the file system is as before and the branch query is the only command that was
  run: no file written, no directory removed, nothing staged, committed or pushed.
\<close>

theorem perform_wrong_branch:
  assumes "checked_out_branch x (git_client self) w = (Inr A, w1)"
    and "A \<noteq> cfg_branch self"
  shows "(path_exists w (cfg_root self) \<longrightarrow>
            perform x self achalls w =
              Some (Inl (PluginError (''Working copy has '' @ apos @ A @ apos @
                           '' checked out, not '' @ apos @ cfg_branch self @ apos)), w1))
       \<and> (\<not> path_exists w (cfg_root self) \<longrightarrow>
            perform x self achalls w =
              Some (Inl (PluginError (''The '' @ apos @ render (cfg_root self) @ apos @
                           '' folder doesn'' @ apos @ ''t exist'')), w))
       \<and> fs w1 = fs w
       \<and> (\<exists>u. executed w1 = executed w @ [sudo_git u [''symbolic-ref'', ''--short'', ''-q'', ''HEAD'']])"
proof (intro conjI impI)
  assume "path_exists w (cfg_root self)"
  then show "perform x self achalls w =
      Some (Inl (PluginError (''Working copy has '' @ apos @ A @ apos @
                   '' checked out, not '' @ apos @ cfg_branch self @ apos)), w1)"
    using assms by (intro perform_preflight_fails preflight_wrong_branch)
next
  assume "\<not> path_exists w (cfg_root self)"
  then show "perform x self achalls w =
      Some (Inl (PluginError (''The '' @ apos @ render (cfg_root self) @ apos @
                   '' folder doesn'' @ apos @ ''t exist'')), w)"
    by (intro perform_preflight_fails preflight_no_root)
next
  from checked_out_branch_result [OF assms(1)]
  obtain u where u: "w1 = ran u [''symbolic-ref'', ''--short'', ''-q'', ''HEAD''] w"
    by blast
  then show "fs w1 = fs w" by simp
  from u show "\<exists>u. executed w1 = executed w @ [sudo_git u [''symbolic-ref'', ''--short'', ''-q'', ''HEAD'']]"
    by auto
qed

theorem perform_wrong_branch_witness:
  "perform (example_ext ''feature'' 0 0) example_auth [example_achall ''tok''] example_world =
     Some (Inl (PluginError (''Working copy has '' @ apos @ ''feature'' @ apos @
                             '' checked out, not '' @ apos @ ''master'' @ apos)),
           ran ''alice'' [''symbolic-ref'', ''--short'', ''-q'', ''HEAD''] example_world)
   \<and> fs (ran ''alice'' [''symbolic-ref'', ''--short'', ''-q'', ''HEAD''] example_world) = example_fs
   \<and> perform (example_ext ''feature'' 0 0) example_auth [example_achall ''tok''] example_bare_world =
     Some (Inl (PluginError (''The '' @ apos @ ''public'' @ apos @ '' folder doesn'' @ apos @ ''t exist'')),
           example_bare_world)"
proof -
  let ?x = "example_ext ''feature'' 0 0"
  let ?w1 = "ran ''alice'' [''symbolic-ref'', ''--short'', ''-q'', ''HEAD''] example_world"
  let ?v1 = "ran ''alice'' [''symbolic-ref'', ''--short'', ''-q'', ''HEAD''] example_bare_world"
  have h1: "checked_out_branch ?x (git_client example_auth) example_world = (Inr ''feature'', ?w1)"
    by (simp add: checked_out_branch_exited [OF environ_example example_ext_simps(1)]
        rstrip_def whitespace_def)
  have h2: "''feature'' \<noteq> cfg_branch example_auth"
    by (simp add: example_auth_def)
  have h3: "path_exists example_world (cfg_root example_auth)"
    using example_root_exists by (simp add: example_auth_def)
  have env: "environ example_bare_world ''SUDO_USER'' = Some ''alice''"
    by (simp add: example_bare_world_def example_world_def)
  have g1: "checked_out_branch ?x (git_client example_auth) example_bare_world = (Inr ''feature'', ?v1)"
    by (simp add: checked_out_branch_exited [OF env example_ext_simps(1)] rstrip_def whitespace_def)
  have g3: "\<not> path_exists example_bare_world (cfg_root example_auth)"
    by (simp add: path_exists_def example_bare_world_def example_auth_def)
  have a: "perform ?x example_auth [example_achall ''tok''] example_world =
     Some (Inl (PluginError (''Working copy has '' @ apos @ ''feature'' @ apos @
                             '' checked out, not '' @ apos @ ''master'' @ apos)), ?w1)"
    using perform_wrong_branch [OF h1 h2, of "[example_achall ''tok'']"] h3
    by (simp add: example_auth_def)
  have b: "perform ?x example_auth [example_achall ''tok''] example_bare_world =
     Some (Inl (PluginError (''The '' @ apos @ ''public'' @ apos @ '' folder doesn'' @ apos @ ''t exist'')),
           example_bare_world)"
    using perform_wrong_branch [OF g1 h2, of "[example_achall ''tok'']"] g3
    by (simp add: example_auth_def render_def)
  have c: "fs ?w1 = example_fs"
    by (simp add: example_world_def)
  from a b c show ?thesis by simp
qed

text \<open>
  C3 as stated fails where the root folder is missing: \<^verbatim>\<open>feature\<close> is checked out,
  \<^verbatim>\<open>master\<close> is configured, and the error names the folder, not the branches.
\<close>

theorem perform_wrong_branch_counterexample:
  "fst (checked_out_branch (example_ext ''feature'' 0 0) (git_client example_auth) example_bare_world)
     = Inr ''feature''
   \<and> cfg_branch example_auth = ''master''
   \<and> perform (example_ext ''feature'' 0 0) example_auth [example_achall ''tok''] example_bare_world
     = Some (Inl (PluginError (''The '' @ apos @ ''public'' @ apos @ '' folder doesn'' @ apos @ ''t exist'')),
             example_bare_world)
   \<and> perform (example_ext ''feature'' 0 0) example_auth [example_achall ''tok''] example_bare_world
     \<noteq> Some (Inl (PluginError (''Working copy has '' @ apos @ ''feature'' @ apos @
                             '' checked out, not '' @ apos @ ''master'' @ apos)),
           snd (checked_out_branch (example_ext ''feature'' 0 0) (git_client example_auth) example_bare_world))"
proof -
  let ?x = "example_ext ''feature'' 0 0"
  have env: "environ example_bare_world ''SUDO_USER'' = Some ''alice''"
    by (simp add: example_bare_world_def example_world_def)
  have a: "fst (checked_out_branch ?x (git_client example_auth) example_bare_world) = Inr ''feature''"
    by (simp add: checked_out_branch_exited [OF env example_ext_simps(1)] rstrip_def whitespace_def)
  have b: "cfg_branch example_auth = ''master''"
    by (simp add: example_auth_def)
  have nr: "\<not> path_exists example_bare_world (cfg_root example_auth)"
    by (simp add: path_exists_def example_bare_world_def example_auth_def)
  have c: "perform ?x example_auth [example_achall ''tok''] example_bare_world
     = Some (Inl (PluginError (''The '' @ apos @ ''public'' @ apos @ '' folder doesn'' @ apos @ ''t exist'')),
             example_bare_world)"
    using perform_preflight_fails [OF preflight_no_root [OF nr]]
    by (simp add: example_auth_def render_def)
  from a b c show ?thesis by (simp add: apos_def)
qed

section \<open>What the git commands and preflight leave alone\<close>

lemma trace_only_refl [simp]: "trace_only w w"
  by (simp add: trace_only_def)

lemma trace_only_upd [simp]:
  "trace_only w (w\<lparr>logged := l\<rparr>)" "trace_only w (w\<lparr>logged := l, executed := e\<rparr>)"
  "trace_only w (ran u args w)"
  by (simp_all add: trace_only_def ran_def)

lemma trace_only_trans: "trace_only w w1 \<Longrightarrow> trace_only w1 w2 \<Longrightarrow> trace_only w w2"
  unfolding trace_only_def
  by (metis (no_types, lifting) world.surjective world.update_convs(4) world.update_convs(5))

lemma trace_only_frame:
  assumes "trace_only w w'"
  shows "fs w' = fs w" "uid w' = uid w" "environ w' = environ w" "polls w' = polls w"
    "sleeps w' = sleeps w" "path_exists w' p = path_exists w p"
proof -
  from assms have e: "w' = w\<lparr>logged := logged w', executed := executed w'\<rparr>"
    by (simp add: trace_only_def)
  show "fs w' = fs w" by (subst e) simp
  show "uid w' = uid w" by (subst e) simp
  show "environ w' = environ w" by (subst e) simp
  show "polls w' = polls w" by (subst e) simp
  show "sleeps w' = sleeps w" by (subst e) simp
  show "path_exists w' p = path_exists w p" unfolding path_exists_def by (subst e) simp
qed

lemma trace_only_bind:
  assumes "\<And>w. trace_only w (snd (m w))" and "\<And>a w. trace_only w (snd (f a w))"
  shows "trace_only w (snd (bind_io m f w))"
proof (cases "m w")
  case (Pair r w1)
  with assms(1) [of w] have t: "trace_only w w1" by simp
  show ?thesis
  proof (cases r)
    case (Inl e)
    with Pair t show ?thesis by (simp add: bind_io_def)
  next
    case (Inr a)
    with Pair have "bind_io m f w = f a w1" by (simp add: bind_io_def)
    with trace_only_trans [OF t assms(2) [of w1 a]] show ?thesis by simp
  qed
qed

lemma git_run_trace: "trace_only w (snd (git_run x d args w))"
proof (cases "environ w ''SUDO_USER''")
  case None
  then show ?thesis by (simp add: git_run_unset)
next
  case (Some u)
  show ?thesis
  proof (cases d)
    case True
    with Some show ?thesis by (simp add: git_run_dry)
  next
    case False
    with Some show ?thesis
      by (simp add: git_run_exec Let_def split: proc_result.splits)
  qed
qed

lemma checked_out_branch_trace: "trace_only w (snd (checked_out_branch x gc w))"
  unfolding checked_out_branch_def
  by (rule trace_only_bind) (simp_all add: git_run_trace split: option.splits)

lemma update_remote_trace: "trace_only w (snd (update_remote x gc remote w))"
  unfolding update_remote_def
  by (rule trace_only_bind) (simp_all add: git_run_trace)

lemma is_up_to_date_trace: "trace_only w (snd (is_up_to_date x gc branch remote w))"
proof -
  let ?r = "git_run x False [''diff'', ''--staged'', ''--quiet'', remote @ ''/'' @ branch] w"
  have "snd (is_up_to_date x gc branch remote w) = snd ?r"
    by (simp add: is_up_to_date_def split: prod.splits sum.splits error.splits)
  then show ?thesis by (simp add: git_run_trace)
qed

lemma stage_file_trace: "trace_only w (snd (stage_file x gc p w))"
  unfolding stage_file_def
  by (rule trace_only_bind) (simp_all add: git_run_trace)

lemma commit_trace: "trace_only w (snd (commit x gc m w))"
  unfolding commit_def
  by (rule trace_only_bind) (simp_all add: git_run_trace)

lemma push_to_remote_trace: "trace_only w (snd (push_to_remote x gc r w))"
  unfolding push_to_remote_def
  by (rule trace_only_bind) (simp_all add: git_run_trace)

lemma preflight_trace: "trace_only w (snd (preflight x self root remote branch w))"
proof (cases "path_exists w root")
  case False
  then show ?thesis by (simp add: preflight_no_root)
next
  case True
  obtain r1 w1 where c1: "checked_out_branch x (git_client self) w = (r1, w1)"
    by (cases "checked_out_branch x (git_client self) w")
  with checked_out_branch_trace [of w x "git_client self"] have t1: "trace_only w w1" by simp
  obtain r2 w2 where c2: "update_remote x (git_client self) remote w1 = (r2, w2)"
    by (cases "update_remote x (git_client self) remote w1")
  with update_remote_trace [of w1 x "git_client self" remote] have t2: "trace_only w1 w2" by simp
  obtain r3 w3 where c3: "is_up_to_date x (git_client self) branch remote w2 = (r3, w3)"
    by (cases "is_up_to_date x (git_client self) branch remote w2")
  with is_up_to_date_trace [of w2 x "git_client self" branch remote] have t3: "trace_only w2 w3" by simp
  have t12: "trace_only w w2" using t1 t2 by (rule trace_only_trans)
  have t13: "trace_only w w3" using t12 t3 by (rule trace_only_trans)
  have "snd (preflight x self root remote branch w) \<in> {w1, w2, w3}"
    using True c1 c2 c3
    by (simp add: preflight_def split: sum.splits error.splits)
  with t1 t12 t13 show ?thesis by auto
qed

lemma preflight_ok_root:
  "preflight x self root remote branch w = (Inr (), w1) \<Longrightarrow> path_exists w root"
  by (rule ccontr) (simp add: preflight_no_root)

text \<open>
  C10. With an empty list of challenges \<open>perform\<close> never returns a list of responses:
  it always raises, and once preflight has succeeded the error is the \<open>IndexError\<close> of
  \<^verbatim>\<open>achalls[0]\<close>, raised with the file system as it was.
\<close>

theorem perform_empty_challenges:
  "(preflight x self (cfg_root self) (cfg_remote self) (cfg_branch self) w = (Inr (), w1) \<longrightarrow>
      perform x self [] w = Some (Inl IndexError, w1) \<and> fs w1 = fs w)
   \<and> (\<exists>e w'. perform x self [] w = Some (Inl e, w'))"
proof -
  let ?p = "preflight x self (cfg_root self) (cfg_remote self) (cfg_branch self) w"
  have ok: "perform x self [] w = Some (Inl IndexError, w1) \<and> fs w1 = fs w" if p: "?p = (Inr (), w1)" for w1
  proof -
    from preflight_trace [of w x self "cfg_root self" "cfg_remote self" "cfg_branch self"] p
    have t: "trace_only w w1" by simp
    from preflight_ok_root [OF p] have "path_exists w1 (cfg_root self)"
      by (simp add: trace_only_frame(6) [OF t])
    then obtain u where "st_uid (fs w1) (cfg_root self) = Some u"
      by (auto simp: path_exists_def st_uid_def)
    with p have "perform x self [] w = Some (Inl IndexError, w1)"
      by (simp add: perform_def bind_pio_def total_def Let_def os_stat_uid_def)
    with trace_only_frame(1) [OF t] show ?thesis by simp
  qed
  have ex: "\<exists>e w'. perform x self [] w = Some (Inl e, w')"
  proof (cases ?p)
    case (Pair r w1)
    show ?thesis
    proof (cases r)
      case (Inl e)
      with Pair perform_preflight_fails [of x self w e w1 "[]"] show ?thesis by blast
    next
      case (Inr u)
      with Pair ok [of w1] show ?thesis by auto
    qed
  qed
  from ok ex show ?thesis by blast
qed

lemma example_preflight_ok:
  "preflight (example_ext ''master'' 0 n) example_auth [''public''] ''heroku'' ''master'' example_world =
     (Inr (),
      ran ''alice'' [''diff'', ''--staged'', ''--quiet'', ''heroku/master'']
        (ran ''alice'' [''remote'', ''update'', ''heroku'']
          (ran ''alice'' [''symbolic-ref'', ''--short'', ''-q'', ''HEAD''] example_world)))"
proof -
  let ?gc = "git_client example_auth"
  let ?x = "example_ext ''master'' 0 n"
  let ?v1 = "ran ''alice'' [''symbolic-ref'', ''--short'', ''-q'', ''HEAD''] example_world"
  let ?v2 = "ran ''alice'' [''remote'', ''update'', ''heroku''] ?v1"
  let ?v3 = "ran ''alice'' [''diff'', ''--staged'', ''--quiet'', ''heroku/master''] ?v2"
  have h2: "checked_out_branch ?x ?gc example_world = (Inr ''master'', ?v1)"
    by (simp add: checked_out_branch_exited [OF environ_example example_ext_simps(1)]
        rstrip_def whitespace_def)
  have h3: "update_remote ?x ?gc ''heroku'' ?v1 = (Inr (), ?v2)"
    using update_remote_exited [of ?v1 "''alice''" ?x "''heroku''" 0 "[]" ?gc]
    by (simp add: environ_example example_ext_simps)
  have h4: "is_up_to_date ?x ?gc ''master'' ''heroku'' ?v2 = (Inr True, ?v3)"
    using is_up_to_date_exited [of ?v2 "''alice''" ?x "''heroku''" "''master''" 0 "[]" ?gc]
    by (simp add: environ_example example_ext_simps)
  show ?thesis
    using example_root_exists h2 h3 h4 by (simp add: preflight_def)
qed

theorem perform_empty_challenges_witness:
  "perform (example_ext ''master'' 0 0) example_auth [] example_world =
     Some (Inl IndexError,
       ran ''alice'' [''diff'', ''--staged'', ''--quiet'', ''heroku/master'']
        (ran ''alice'' [''remote'', ''update'', ''heroku'']
          (ran ''alice'' [''symbolic-ref'', ''--short'', ''-q'', ''HEAD''] example_world)))"
proof -
  have p: "preflight (example_ext ''master'' 0 0) example_auth (cfg_root example_auth)
      (cfg_remote example_auth) (cfg_branch example_auth) example_world =
     (Inr (),
      ran ''alice'' [''diff'', ''--staged'', ''--quiet'', ''heroku/master'']
        (ran ''alice'' [''remote'', ''update'', ''heroku'']
          (ran ''alice'' [''symbolic-ref'', ''--short'', ''-q'', ''HEAD''] example_world)))"
    using example_preflight_ok [of 0] by (simp add: example_auth_def)
  from perform_empty_challenges [THEN conjunct1, rule_format, OF p] show ?thesis by simp
qed

section \<open>Dry run\<close>

lemma git_write_dry:
  assumes "environ w ''SUDO_USER'' = Some u"
  shows "bind_io (git_run x True args) (\<lambda>_ w. (Inr (), w)) w =
     (Inr (), w\<lparr>logged := logged w @
        [(WARNING, ''Would run: '' @ command_str w (Command (sudo_git u args)))]\<rparr>)"
  using assms by (simp add: bind_io_def git_run_dry)

lemma git_write_dry_frame:
  "\<exists>l. snd (bind_io (git_run x True args) (\<lambda>_ w. (Inr (), w)) w) = w\<lparr>logged := l\<rparr>"
proof (cases "environ w ''SUDO_USER''")
  case None
  then have "snd (bind_io (git_run x True args) (\<lambda>_ w. (Inr (), w)) w) = w\<lparr>logged := logged w\<rparr>"
    by (simp add: bind_io_def git_run_unset)
  then show ?thesis ..
next
  case (Some u)
  from git_write_dry [OF this, of x args]
  have "snd (bind_io (git_run x True args) (\<lambda>_ w. (Inr (), w)) w) =
      w\<lparr>logged := logged w @
        [(WARNING, ''Would run: '' @ command_str w (Command (sudo_git u args)))]\<rparr>"
    by simp
  then show ?thesis ..
qed

lemma bind_unit_snd:
  "snd (bind_io m (\<lambda>_ w. (Inr (), w)) w) = snd (m w)"
  by (simp add: bind_io_def split: prod.splits sum.splits)

lemma git_read_executed:
  assumes "environ w ''SUDO_USER'' = Some u"
  shows "executed (snd (git_run x False args w)) = executed w @ [sudo_git u args]"
  using assms by (simp add: git_run_exec Let_def split: proc_result.splits)

lemma update_certificate_dry:
  assumes "app_dry_run app"
  shows "requests (snd (update_certificate app key certificate c)) =
           requests c @ [GET [''apps'', app_name c, ''ssl-endpoints'']]"
    and "ssl_endpoints (snd (update_certificate app key certificate c)) = ssl_endpoints c"
    and "length (ssl_endpoints c) = 1 \<Longrightarrow>
         update_certificate app key certificate c =
           (Inr (), c\<lparr>requests := requests c @ [GET [''apps'', app_name c, ''ssl-endpoints'']],
                      app_logged := app_logged c @
                        [(WARNING, ''Would replace certificate on endpoint '' @
                            ep_name (ssl_endpoints c ! 0) @ '' with '' @ certificate)]\<rparr>)"
  using assms by (simp_all add: update_certificate_def api_ssl_endpoints_def Let_def)

text \<open>
  C6. With the dry-run flag set, staging, committing and pushing change nothing but the
  log (no subprocess is run, the file system is as before) and log the command they would
  run; \<open>update_certificate\<close> sends only the fetch of the endpoints, leaves them as they
  are and logs the replacement it would make. The branch query, the remote update and
  the diff check do not look at the flag and run their command; the endpoints are
  fetched.
\<close>

theorem dry_run_only_logs:
  assumes "dry_run gc" and "app_dry_run app"
  shows "(\<exists>l. snd (stage_file x gc p w) = w\<lparr>logged := l\<rparr>)
       \<and> (\<exists>l. snd (commit x gc m w) = w\<lparr>logged := l\<rparr>)
       \<and> (\<exists>l. snd (push_to_remote x gc r w) = w\<lparr>logged := l\<rparr>)
       \<and> (environ w ''SUDO_USER'' = Some u \<longrightarrow>
            stage_file x gc p w =
              (Inr (), w\<lparr>logged := logged w @
                 [(WARNING, ''Would run: '' @ command_str w (Command (sudo_git u [''add'', p])))]\<rparr>)
          \<and> commit x gc m w =
              (Inr (), w\<lparr>logged := logged w @
                 [(WARNING, ''Would run: '' @ command_str w (Command (sudo_git u [''commit'', ''-m'', m])))]\<rparr>)
          \<and> push_to_remote x gc r w =
              (Inr (), w\<lparr>logged := logged w @
                 [(WARNING, ''Would run: '' @ command_str w (Command (sudo_git u [''push'', r])))]\<rparr>))
       \<and> requests (snd (update_certificate app key certificate c)) =
            requests c @ [GET [''apps'', app_name c, ''ssl-endpoints'']]
       \<and> ssl_endpoints (snd (update_certificate app key certificate c)) = ssl_endpoints c
       \<and> (length (ssl_endpoints c) = 1 \<longrightarrow>
            update_certificate app key certificate c =
              (Inr (), c\<lparr>requests := requests c @ [GET [''apps'', app_name c, ''ssl-endpoints'']],
                         app_logged := app_logged c @
                           [(WARNING, ''Would replace certificate on endpoint '' @
                               ep_name (ssl_endpoints c ! 0) @ '' with '' @ certificate)]\<rparr>))
       \<and> (environ w ''SUDO_USER'' = Some u \<longrightarrow>
            executed (snd (checked_out_branch x gc w)) =
              executed w @ [sudo_git u [''symbolic-ref'', ''--short'', ''-q'', ''HEAD'']]
          \<and> executed (snd (update_remote x gc r w)) =
              executed w @ [sudo_git u [''remote'', ''update'', r]]
          \<and> executed (snd (is_up_to_date x gc b r w)) =
              executed w @ [sudo_git u [''diff'', ''--staged'', ''--quiet'', r @ ''/'' @ b]])
       \<and> checked_out_branch x gc w = checked_out_branch x (gc\<lparr>dry_run := False\<rparr>) w
       \<and> update_remote x gc r w = update_remote x (gc\<lparr>dry_run := False\<rparr>) r w
       \<and> is_up_to_date x gc b r w = is_up_to_date x (gc\<lparr>dry_run := False\<rparr>) b r w"
proof -
  have w1: "\<exists>l. snd (stage_file x gc p w) = w\<lparr>logged := l\<rparr>"
    using assms(1) by (simp add: stage_file_def git_write_dry_frame)
  have w2: "\<exists>l. snd (commit x gc m w) = w\<lparr>logged := l\<rparr>"
    using assms(1) by (simp add: commit_def git_write_dry_frame)
  have w3: "\<exists>l. snd (push_to_remote x gc r w) = w\<lparr>logged := l\<rparr>"
    using assms(1) by (simp add: push_to_remote_def git_write_dry_frame)
  have l: "stage_file x gc p w =
              (Inr (), w\<lparr>logged := logged w @
                 [(WARNING, ''Would run: '' @ command_str w (Command (sudo_git u [''add'', p])))]\<rparr>)
          \<and> commit x gc m w =
              (Inr (), w\<lparr>logged := logged w @
                 [(WARNING, ''Would run: '' @ command_str w (Command (sudo_git u [''commit'', ''-m'', m])))]\<rparr>)
          \<and> push_to_remote x gc r w =
              (Inr (), w\<lparr>logged := logged w @
                 [(WARNING, ''Would run: '' @ command_str w (Command (sudo_git u [''push'', r])))]\<rparr>)"
    if "environ w ''SUDO_USER'' = Some u"
    using assms(1) that by (simp add: stage_file_def commit_def push_to_remote_def git_write_dry)
  have rd: "executed (snd (checked_out_branch x gc w)) =
              executed w @ [sudo_git u [''symbolic-ref'', ''--short'', ''-q'', ''HEAD'']]
          \<and> executed (snd (update_remote x gc r w)) =
              executed w @ [sudo_git u [''remote'', ''update'', r]]
          \<and> executed (snd (is_up_to_date x gc b r w)) =
              executed w @ [sudo_git u [''diff'', ''--staged'', ''--quiet'', r @ ''/'' @ b]]"
    if e: "environ w ''SUDO_USER'' = Some u"
  proof (intro conjI)
    have "snd (checked_out_branch x gc w) =
        snd (git_run x False [''symbolic-ref'', ''--short'', ''-q'', ''HEAD''] w)"
      by (simp add: checked_out_branch_def bind_io_def split: prod.splits sum.splits option.splits)
    then show "executed (snd (checked_out_branch x gc w)) =
              executed w @ [sudo_git u [''symbolic-ref'', ''--short'', ''-q'', ''HEAD'']]"
      by (simp add: git_read_executed [OF e])
    show "executed (snd (update_remote x gc r w)) = executed w @ [sudo_git u [''remote'', ''update'', r]]"
      by (simp add: update_remote_def bind_unit_snd git_read_executed [OF e])
    have "snd (is_up_to_date x gc b r w) =
        snd (git_run x False [''diff'', ''--staged'', ''--quiet'', r @ ''/'' @ b] w)"
      by (simp add: is_up_to_date_def split: prod.splits sum.splits error.splits)
    then show "executed (snd (is_up_to_date x gc b r w)) =
              executed w @ [sudo_git u [''diff'', ''--staged'', ''--quiet'', r @ ''/'' @ b]]"
      by (simp add: git_read_executed [OF e])
  qed
  have ind: "checked_out_branch x gc w = checked_out_branch x (gc\<lparr>dry_run := False\<rparr>) w
       \<and> update_remote x gc r w = update_remote x (gc\<lparr>dry_run := False\<rparr>) r w
       \<and> is_up_to_date x gc b r w = is_up_to_date x (gc\<lparr>dry_run := False\<rparr>) b r w"
    by (simp add: checked_out_branch_def update_remote_def is_up_to_date_def)
  from w1 w2 w3 l rd ind update_certificate_dry [OF assms(2)] show ?thesis
    by blast
qed

lemma cmd_quote_safe: "list_all (\<lambda>c. c \<in> set safechars) s \<Longrightarrow> s \<noteq> [] \<Longrightarrow> cmd_quote s = s"
  by (simp add: cmd_quote_def)

lemma example_command_str:
  "command_str example_world (Command (sudo_git ''alice'' [''add'', ''public/.well-known/acme-challenge''])) =
     ''# sudo -u alice git add public/.well-known/acme-challenge''"
  by (simp add: command_str_def sudo_git_def example_world_def cmd_quote_safe safechars_def)

theorem dry_run_only_logs_witness:
  "stage_file (example_ext ''master'' 0 0) \<lparr>dry_run = True\<rparr> ''public/.well-known/acme-challenge''
       example_world =
     (Inr (), example_world\<lparr>logged :=
        [(WARNING, ''Would run: # sudo -u alice git add public/.well-known/acme-challenge'')]\<rparr>)
   \<and> executed (snd (push_to_remote (example_ext ''master'' 0 0) \<lparr>dry_run = True\<rparr> ''heroku'' example_world)) = []
   \<and> update_certificate \<lparr>app_dry_run = True\<rparr> ''key'' ''cert'' example_cloud_one =
       (Inr (), example_cloud_one\<lparr>requests := [GET [''apps'', ''shop'', ''ssl-endpoints'']],
          app_logged := [(WARNING, ''Would replace certificate on endpoint tokyo-1 with cert'')]\<rparr>)
   \<and> executed (snd (checked_out_branch (example_ext ''master'' 0 0) \<lparr>dry_run = True\<rparr> example_world)) =
       [[''sudo'', ''-u'', ''alice'', ''git'', ''symbolic-ref'', ''--short'', ''-q'', ''HEAD'']]"
proof -
  have d: "dry_run \<lparr>dry_run = True\<rparr>" and a: "app_dry_run \<lparr>app_dry_run = True\<rparr>"
    by simp_all
  have n: "length (ssl_endpoints example_cloud_one) = 1"
    by (simp add: example_cloud_one_def)
  note t = dry_run_only_logs [OF d a, of "example_ext ''master'' 0 0"
      "''public/.well-known/acme-challenge''" example_world "''msg''" "''heroku''" "''alice''"
      "''key''" "''cert''" example_cloud_one "''master''"]
  have lg: "logged example_world = []" "executed example_world = []"
    by (simp_all add: example_world_def)
  from t environ_example
  have s1: "stage_file (example_ext ''master'' 0 0) \<lparr>dry_run = True\<rparr> ''public/.well-known/acme-challenge''
       example_world =
     (Inr (), example_world\<lparr>logged := logged example_world @
        [(WARNING, ''Would run: '' @ command_str example_world
            (Command (sudo_git ''alice'' [''add'', ''public/.well-known/acme-challenge''])))]\<rparr>)"
    by blast
  have 1: "stage_file (example_ext ''master'' 0 0) \<lparr>dry_run = True\<rparr> ''public/.well-known/acme-challenge''
       example_world =
     (Inr (), example_world\<lparr>logged :=
        [(WARNING, ''Would run: # sudo -u alice git add public/.well-known/acme-challenge'')]\<rparr>)"
    unfolding s1 example_command_str lg by simp
  from t obtain l where
    "snd (push_to_remote (example_ext ''master'' 0 0) \<lparr>dry_run = True\<rparr> ''heroku'' example_world) =
       example_world\<lparr>logged := l\<rparr>"
    by blast
  then have 2: "executed (snd (push_to_remote (example_ext ''master'' 0 0) \<lparr>dry_run = True\<rparr> ''heroku'' example_world)) = []"
    by (simp add: lg)
  from t n
  have s3: "update_certificate \<lparr>app_dry_run = True\<rparr> ''key'' ''cert'' example_cloud_one =
       (Inr (), example_cloud_one\<lparr>requests := requests example_cloud_one @
             [GET [''apps'', app_name example_cloud_one, ''ssl-endpoints'']],
          app_logged := app_logged example_cloud_one @
            [(WARNING, ''Would replace certificate on endpoint '' @
                ep_name (ssl_endpoints example_cloud_one ! 0) @ '' with '' @ ''cert'')]\<rparr>)"
    by blast
  have 3: "update_certificate \<lparr>app_dry_run = True\<rparr> ''key'' ''cert'' example_cloud_one =
       (Inr (), example_cloud_one\<lparr>requests := [GET [''apps'', ''shop'', ''ssl-endpoints'']],
          app_logged := [(WARNING, ''Would replace certificate on endpoint tokyo-1 with cert'')]\<rparr>)"
    unfolding s3 by (simp add: example_cloud_one_def example_cloud_def)
  from t environ_example
  have "executed (snd (checked_out_branch (example_ext ''master'' 0 0) \<lparr>dry_run = True\<rparr> example_world)) =
       executed example_world @ [sudo_git ''alice'' [''symbolic-ref'', ''--short'', ''-q'', ''HEAD'']]"
    by blast
  then have 4: "executed (snd (checked_out_branch (example_ext ''master'' 0 0) \<lparr>dry_run = True\<rparr> example_world)) =
       [[''sudo'', ''-u'', ''alice'', ''git'', ''symbolic-ref'', ''--short'', ''-q'', ''HEAD'']]"
    by (simp add: lg sudo_git_def)
  from 1 2 3 4 show ?thesis by simp
qed

section \<open>The validation wait\<close>

lemma pending_iff:
  "pending x self a w n \<longleftrightarrow>
     (\<forall>i<n. outcome x self a (polls w + i) = NotVerified \<and>
             \<not> sleep_interrupted x (length (sleeps w) + i))"
  by (auto simp: pending_def list_all_iff)

lemma verify_loop_unfold:
  "verify_loop x self a w =
     (case outcome x self a (polls w) of
        Verified \<Rightarrow> Some (polled 1 0 w)
      | VerifyInterrupted \<Rightarrow> Some (polled 1 0 w)
      | NotVerified \<Rightarrow>
          if sleep_interrupted x (length (sleeps w)) then Some (polled 1 1 w)
          else verify_loop x self a (polled 1 1 w))"
  by (subst verify_loop.simps) (simp add: outcome_def polled_def split: verify_outcome.splits)

lemma polled_simps [simp]:
  "polls (polled n k w) = polls w + n" "length (sleeps (polled n k w)) = length (sleeps w) + k"
  "polled n k (polled n' k' w) = polled (n' + n) (k' + k) w"
  "fs (polled n k w) = fs w" "executed (polled n k w) = executed w" "logged (polled n k w) = logged w"
  by (simp_all add: polled_def replicate_add)

lemma verify_loop_pending:
  "pending x self a w n \<Longrightarrow> verify_loop x self a w = verify_loop x self a (polled n n w)"
proof (induction n arbitrary: w)
  case 0
  show ?case by (simp add: polled_def)
next
  case (Suc n)
  from Suc.prems have first: "outcome x self a (polls w) = NotVerified"
    "\<not> sleep_interrupted x (length (sleeps w))"
    by (auto simp: pending_iff)
  from Suc.prems have "pending x self a (polled 1 1 w) n"
    by (auto simp: pending_iff)
  from Suc.IH [OF this] first show ?case
    by (subst verify_loop_unfold) simp
qed

lemmas verify_loop_induct =
  verify_loop.raw_induct [where xa = "(((x, self), a), w)" and y = w' for x self a w w', unfolded prod.case]


lemma verify_loop_forever:
  assumes "\<And>n. pending x self a w n"
  shows "verify_loop x self a w = None"
proof (rule ccontr)
  assume "verify_loop x self a w \<noteq> None"
  then obtain w' where r: "verify_loop x self a w = Some w'" by auto
  have "\<exists>n. \<not> pending x self a w n"
  proof (rule verify_loop_induct [where P = "\<lambda>x self a w w'. \<exists>n. \<not> pending x self a w n", OF _ r])
    fix loop x self a w w'
    assume IH: "\<And>x self a w w'. loop x self a w = Some w' \<Longrightarrow> \<exists>n. \<not> pending x self a w n"
      and step: "(case simple_verify x (polls w) (response a) (token a) (domain a)
            (account_public_key a) (cfg_http01_port self) of
          NotVerified \<Rightarrow>
            if sleep_interrupted x (length (sleeps w))
            then Some (w\<lparr>polls := Suc (polls w), sleeps := sleeps w @ [10]\<rparr>)
            else loop x self a (w\<lparr>polls := Suc (polls w), sleeps := sleeps w @ [10]\<rparr>)
          | _ \<Rightarrow> Some (w\<lparr>polls := Suc (polls w)\<rparr>)) = Some w'"
    show "\<exists>n. \<not> pending x self a w n"
    proof (cases "outcome x self a (polls w) = NotVerified \<and> \<not> sleep_interrupted x (length (sleeps w))")
      case False
      then have "\<not> pending x self a w 1"
        by (auto simp: pending_iff)
      then show ?thesis ..
    next
      case True
      with step have "loop x self a (polled 1 1 w) = Some w'"
        by (simp add: outcome_def polled_def)
      from IH [OF this] obtain n where "\<not> pending x self a (polled 1 1 w) n" ..
      then have "\<not> pending x self a w (Suc n)"
        by (auto simp: pending_iff less_Suc_eq_0_disj)
      then show ?thesis ..
    qed
  qed
  with assms show False by simp
qed

lemma verifying_simps [simp]:
  "polls (verifying a w) = polls w" "sleeps (verifying a w) = sleeps w"
  "pending x self a' (verifying a w) n = pending x self a' w n"
  by (simp_all add: verifying_def pending_def)

lemma wait_unfold:
  "wait_for_challenge_validation x self a w =
     (case verify_loop x self a (verifying a w) of
        None \<Rightarrow> None
      | Some w' \<Rightarrow> Some (Inr (response a), w'))"
  by (simp add: wait_for_challenge_validation_def bind_pio_def total_def log_msg_def verifying_def)

lemma wait_pending:
  assumes "pending x self a w n"
  shows "wait_for_challenge_validation x self a w =
     (case verify_loop x self a (polled n n (verifying a w)) of
        None \<Rightarrow> None
      | Some w' \<Rightarrow> Some (Inr (response a), w'))"
proof -
  from assms have "pending x self a (verifying a w) n" by simp
  from verify_loop_pending [OF this] show ?thesis by (simp add: wait_unfold)
qed

text \<open>
  C7. Let the first \<open>n\<close> calls of the verifier answer false, with every sleep after them
  left alone. If call \<open>n + 1\<close> answers true, the wait returns the response after
  \<open>n + 1\<close> calls and \<open>n\<close> sleeps of ten seconds, for every \<open>n\<close>: there is no cap. If
  the interrupt arrives in call \<open>n + 1\<close> or in the sleep after it, the wait returns the
  response all the same. If the verifier never answers true and no interrupt arrives, the
  wait does not return. It never raises.
\<close>

theorem wait_for_challenge_validation_polls:
  "(pending x self a w n \<and> outcome x self a (polls w + n) = Verified \<longrightarrow>
      wait_for_challenge_validation x self a w =
        Some (Inr (response a), polled (Suc n) n (verifying a w)))
   \<and> (pending x self a w n \<and> outcome x self a (polls w + n) = VerifyInterrupted \<longrightarrow>
      wait_for_challenge_validation x self a w =
        Some (Inr (response a), polled (Suc n) n (verifying a w)))
   \<and> (pending x self a w n \<and> outcome x self a (polls w + n) = NotVerified \<and>
        sleep_interrupted x (length (sleeps w) + n) \<longrightarrow>
      wait_for_challenge_validation x self a w =
        Some (Inr (response a), polled (Suc n) (Suc n) (verifying a w)))
   \<and> ((\<forall>k. pending x self a w k) \<longrightarrow> wait_for_challenge_validation x self a w = None)
   \<and> (wait_for_challenge_validation x self a w = None \<or>
       (\<exists>w'. wait_for_challenge_validation x self a w = Some (Inr (response a), w')))"
proof (intro conjI impI)
  assume "pending x self a w n \<and> outcome x self a (polls w + n) = Verified"
  then show "wait_for_challenge_validation x self a w =
        Some (Inr (response a), polled (Suc n) n (verifying a w))"
    using wait_pending [of x self a w n] verify_loop_unfold [of x self a "polled n n (verifying a w)"]
    by simp
next
  assume "pending x self a w n \<and> outcome x self a (polls w + n) = VerifyInterrupted"
  then show "wait_for_challenge_validation x self a w =
        Some (Inr (response a), polled (Suc n) n (verifying a w))"
    using wait_pending [of x self a w n] verify_loop_unfold [of x self a "polled n n (verifying a w)"]
    by simp
next
  assume "pending x self a w n \<and> outcome x self a (polls w + n) = NotVerified \<and>
        sleep_interrupted x (length (sleeps w) + n)"
  then show "wait_for_challenge_validation x self a w =
        Some (Inr (response a), polled (Suc n) (Suc n) (verifying a w))"
    using wait_pending [of x self a w n] verify_loop_unfold [of x self a "polled n n (verifying a w)"]
    by simp
next
  assume "\<forall>k. pending x self a w k"
  then have "\<And>k. pending x self a (verifying a w) k" by simp
  from verify_loop_forever [OF this] show "wait_for_challenge_validation x self a w = None"
    by (simp add: wait_unfold)
next
  show "wait_for_challenge_validation x self a w = None \<or>
       (\<exists>w'. wait_for_challenge_validation x self a w = Some (Inr (response a), w'))"
    by (cases "verify_loop x self a (verifying a w)") (simp_all add: wait_unfold)
qed

theorem wait_for_challenge_validation_polls_witness:
  "wait_for_challenge_validation (example_ext ''master'' 0 2) example_auth (example_achall ''tok'')
       example_world =
     Some (Inr ''response-tok'', polled 3 2 (verifying (example_achall ''tok'') example_world))
   \<and> polls (polled 3 2 (verifying (example_achall ''tok'') example_world)) = 3
   \<and> sleeps (polled 3 2 (verifying (example_achall ''tok'') example_world)) = [10, 10]
   \<and> wait_for_challenge_validation example_ext_verify_ctrl_c example_auth (example_achall ''tok'')
       example_world =
     Some (Inr ''response-tok'', polled 2 1 (verifying (example_achall ''tok'') example_world))
   \<and> wait_for_challenge_validation example_ext_ctrl_c example_auth (example_achall ''tok'')
       example_world =
     Some (Inr ''response-tok'', polled 2 2 (verifying (example_achall ''tok'') example_world))
   \<and> wait_for_challenge_validation example_ext_never example_auth (example_achall ''tok'')
       example_world = None"
proof -
  let ?a = "example_achall ''tok''"
  have w0: "polls example_world = 0" "sleeps example_world = []"
    by (simp_all add: example_world_def)
  have r: "response ?a = ''response-tok''"
    by (simp add: example_achall_def)
  have p1: "pending (example_ext ''master'' 0 2) example_auth ?a example_world 2
      \<and> outcome (example_ext ''master'' 0 2) example_auth ?a (polls example_world + 2) = Verified"
    by (simp add: pending_iff outcome_def example_ext_def w0)
  have p2: "pending example_ext_verify_ctrl_c example_auth ?a example_world 1
      \<and> outcome example_ext_verify_ctrl_c example_auth ?a (polls example_world + 1) = VerifyInterrupted"
    by (simp add: pending_iff outcome_def example_ext_verify_ctrl_c_def example_ext_def w0)
  have p3: "pending example_ext_ctrl_c example_auth ?a example_world 1
      \<and> outcome example_ext_ctrl_c example_auth ?a (polls example_world + 1) = NotVerified
      \<and> sleep_interrupted example_ext_ctrl_c (length (sleeps example_world) + 1)"
    by (simp add: pending_iff outcome_def example_ext_ctrl_c_def example_ext_never_def
        example_ext_def w0)
  have p4: "\<forall>k. pending example_ext_never example_auth ?a example_world k"
    by (simp add: pending_iff outcome_def example_ext_never_def example_ext_def)
  note t = wait_for_challenge_validation_polls
  have 1: "wait_for_challenge_validation (example_ext ''master'' 0 2) example_auth ?a example_world =
     Some (Inr ''response-tok'', polled 3 2 (verifying ?a example_world))"
    using t [of "example_ext ''master'' 0 2" example_auth ?a example_world 2] p1 r
    by (simp add: numeral_3_eq_3)
  have 2: "wait_for_challenge_validation example_ext_verify_ctrl_c example_auth ?a example_world =
     Some (Inr ''response-tok'', polled 2 1 (verifying ?a example_world))"
    using t [of example_ext_verify_ctrl_c example_auth ?a example_world 1] p2 r
    by (simp add: numeral_2_eq_2)
  have 3: "wait_for_challenge_validation example_ext_ctrl_c example_auth ?a example_world =
     Some (Inr ''response-tok'', polled 2 2 (verifying ?a example_world))"
    using t [of example_ext_ctrl_c example_auth ?a example_world 1] p3 r
    by (simp add: numeral_2_eq_2)
  have 4: "wait_for_challenge_validation example_ext_never example_auth ?a example_world = None"
    using t [of example_ext_never example_auth ?a example_world] p4 by blast
  have 5: "polls (polled 3 2 (verifying ?a example_world)) = 3"
    "sleeps (polled 3 2 (verifying ?a example_world)) = [10, 10]"
    by (simp_all add: polled_def w0 numeral_2_eq_2)
  from 1 2 3 4 5 show ?thesis by simp
qed

section \<open>The file system tree\<close>

lemma lookup_None [simp]: "lookup None p = None"
  by (cases p) simp_all


lemma alter_append: "alter (p @ q) f n = alter p (alter q f) n"
  by (induction p "alter q f" n rule: alter.induct) simp_all

lemma alter_lookup: "alter p f n = Inr r \<Longrightarrow> f (lookup n p) = Inr (lookup r p)"
  by (induction p f n arbitrary: r rule: alter.induct) (auto split: sum.splits)



lemma makedirs_from_lookup:
  "makedirs_from u p n = Inr r \<Longrightarrow> lookup n p = None \<and> lookup r p = Some (Dir u (\<lambda>c. None))"
  by (induction u p n arbitrary: r rule: makedirs_from.induct) (auto split: sum.splits)



section \<open>Ownership fix-up\<close>



lemma chown_top_returns:
  assumes "chown_top root directory = Some d"
  shows "strict_prefix root directory \<or> (root = [] \<and> directory = [])"
proof (rule chown_top.raw_induct [where P = "\<lambda>root directory d. strict_prefix root directory \<or> (root = [] \<and> directory = [])", OF _ assms])
  fix loop root directory d
  assume IH: "\<And>root directory d. loop root directory = Some d \<Longrightarrow>
      strict_prefix root directory \<or> (root = [] \<and> directory = [])"
    and step: "(if root \<noteq> dirname directory then loop root (dirname directory) else Some directory) = Some d"
  show "strict_prefix root directory \<or> (root = [] \<and> directory = [])"
  proof (cases "root = dirname directory")
    case True
    then show ?thesis
      by (cases directory rule: rev_cases) (auto simp: dirname_def strict_prefix_def)
  next
    case False
    with step have "loop root (dirname directory) = Some d" by simp
    from IH [OF this] False have "strict_prefix root (dirname directory)"
      by (auto simp: dirname_def)
    then show ?thesis
      by (cases directory rule: rev_cases) (auto simp: dirname_def strict_prefix_def)
  qed
qed








section \<open>The write phase\<close>

lemma fs_alter_ok:
  assumes "fs_alter p f w = (Inr (), w')"
  shows "\<exists>n. alter p f (Some (fs w)) = Inr (Some n) \<and> w' = w\<lparr>fs := n\<rparr>"
  using assms by (auto simp: fs_alter_def split: sum.splits option.splits)

lemma clear_directory_ok:
  assumes "clear_directory d w = (Inr (), w1)"
  shows "lookup (Some (fs w1)) d = None \<and> uid w1 = uid w"
proof (cases "path_exists w d")
  case False
  with assms show ?thesis by (simp add: clear_directory_def path_exists_def)
next
  case True
  with assms have r: "rmtree d w = (Inr (), w1)" by (simp add: clear_directory_def)
  then have "d \<noteq> []" by (auto simp: rmtree_def split: node.splits)
  with r have "fs_alter d rmtree_entry w = (Inr (), w1)" by (simp add: rmtree_def)
  from fs_alter_ok [OF this] obtain n where
    a: "alter d rmtree_entry (Some (fs w)) = Inr (Some n)" and w1: "w1 = w\<lparr>fs := n\<rparr>"
    by blast
  from alter_lookup [OF a] have "rmtree_entry (lookup (Some (fs w)) d) = Inr (lookup (Some n) d)" .
  then have "lookup (Some n) d = None"
    by (cases "lookup (Some (fs w)) d" rule: rmtree_entry.cases) simp_all
  with w1 show ?thesis by simp
qed

lemma write_entry_Some: "write_entry u s e = Inr r \<Longrightarrow> \<exists>f. r = Some f"
  by (cases "(u, s, e)" rule: write_entry.cases) auto

lemma write_file_into:
  assumes d: "lookup (Some (fs w)) d = Some (Dir u es)"
    and wr: "write_file (d @ [t]) s w = (Inr (), w')"
  shows "\<exists>f. write_entry (uid w) s (es t) = Inr (Some f) \<and>
             lookup (Some (fs w')) d = Some (Dir u (es(t \<mapsto> f))) \<and> uid w' = uid w"
proof -
  from fs_alter_ok [OF wr [unfolded write_file_def]] obtain n where
    a: "alter (d @ [t]) (write_entry (uid w) s) (Some (fs w)) = Inr (Some n)"
    and w': "w' = w\<lparr>fs := n\<rparr>"
    by blast
  from a have "alter d (alter [t] (write_entry (uid w) s)) (Some (fs w)) = Inr (Some n)"
    by (simp add: alter_append)
  from alter_lookup [OF this] d
  have "alter [t] (write_entry (uid w) s) (Some (Dir u es)) = Inr (lookup (Some n) d)"
    by simp
  then obtain r where r: "write_entry (uid w) s (es t) = Inr r"
    and l: "lookup (Some n) d = Some (Dir u (es(t := r)))"
    by (auto split: sum.splits)
  from write_entry_Some [OF r] obtain f where "r = Some f" ..
  with r l w' show ?thesis by auto
qed

lemma write_challenge_into:
  assumes d: "lookup (Some (fs w)) d = Some (Dir u es)"
    and fresh: "es (token a) = None"
    and wr: "write_challenge a d w = (Inr (), w')"
  shows "lookup (Some (fs w')) d = Some (Dir u (es(token a \<mapsto> File (uid w) (validation a)))) \<and>
         uid w' = uid w"
proof -
  from d have "path_exists w d" by (simp add: path_exists_def)
  with wr have "write_file (d @ [token a]) (validation a) w = (Inr (), w')"
    by (simp add: write_challenge_def bind_io_def)
  from write_file_into [OF d this] fresh show ?thesis by auto
qed

lemma write_challenge_fresh:
  assumes d: "lookup (Some (fs w)) d = None"
    and wr: "write_challenge a d w = (Inr (), w')"
  shows "lookup (Some (fs w')) d = Some (Dir (uid w) [token a \<mapsto> File (uid w) (validation a)]) \<and>
         uid w' = uid w"
proof -
  from d have ne: "\<not> path_exists w d" by (simp add: path_exists_def)
  obtain r w1 where m: "makedirs d w = (r, w1)" by (cases "makedirs d w")
  with wr ne have r: "r = Inr ()"
    and wf: "write_file (d @ [token a]) (validation a) w1 = (Inr (), w')"
    by (auto simp: write_challenge_def bind_io_def split: sum.splits)
  from m r obtain n where mk: "makedirs_from (uid w) d (Some (fs w)) = Inr (Some n)"
    and w1: "w1 = w\<lparr>fs := n\<rparr>"
    by (auto simp: makedirs_def split: sum.splits option.splits)
  from makedirs_from_lookup [OF mk] w1
  have d1: "lookup (Some (fs w1)) d = Some (Dir (uid w) (\<lambda>c. None))" and u1: "uid w1 = uid w"
    by simp_all
  from write_file_into [OF d1 wf] u1 show ?thesis by auto
qed

lemma write_challenges_into:
  assumes "lookup (Some (fs w)) d = Some (Dir u es)"
    and "distinct (map token as)"
    and "\<forall>a\<in>set as. es (token a) = None"
    and "write_challenges as d w = (Inr (), w')"
  shows "lookup (Some (fs w')) d = Some (Dir u (es ++ challenge_files (uid w) as)) \<and> uid w' = uid w"
  using assms
proof (induction as arbitrary: w es)
  case Nil
  then show ?case by (simp add: challenge_files_def)
next
  case (Cons a as)
  obtain r w1 where s: "write_challenge a d w = (r, w1)" by (cases "write_challenge a d w")
  with Cons.prems(4) have r: "r = Inr ()" and rest: "write_challenges as d w1 = (Inr (), w')"
    by (auto simp: bind_io_def split: sum.splits)
  from Cons.prems(3) have "es (token a) = None" by simp
  from write_challenge_into [OF Cons.prems(1) this s [unfolded r]]
  have d1: "lookup (Some (fs w1)) d = Some (Dir u (es(token a \<mapsto> File (uid w) (validation a))))"
    and u1: "uid w1 = uid w"
    by simp_all
  from Cons.prems(2) have dist: "distinct (map token as)" and na: "token a \<notin> token ` set as"
    by simp_all
  from Cons.prems(3) na
  have fr: "\<forall>b\<in>set as. (es(token a \<mapsto> File (uid w) (validation a))) (token b) = None"
    by (fastforce simp: image_iff)
  from Cons.IH [OF d1 dist fr rest, unfolded u1]
  have l: "lookup (Some (fs w')) d =
      Some (Dir u (es(token a \<mapsto> File (uid w) (validation a)) ++ challenge_files (uid w) as))"
    and u: "uid w' = uid w"
    by blast+
  from na have "challenge_files (uid w) as (token a) = None"
    by (simp add: challenge_files_def map_of_eq_None_iff image_image)
  then have "es(token a \<mapsto> File (uid w) (validation a)) ++ challenge_files (uid w) as =
      es ++ challenge_files (uid w) (a # as)"
    by (auto simp: challenge_files_def map_add_def fun_eq_iff split: option.splits)
  with l u show ?case by simp
qed

lemma challenge_files_distinct:
  assumes "distinct (map token achalls)"
  shows "dom (challenge_files u achalls) = token ` set achalls"
    and "\<forall>a\<in>set achalls. challenge_files u achalls (token a) = Some (File u (validation a))"
proof -
  show "dom (challenge_files u achalls) = token ` set achalls"
    by (simp add: challenge_files_def dom_map_of_conv_image_fst image_image)
  from assms have "distinct (map fst (map (\<lambda>a. (token a, File u (validation a))) achalls))"
    by (simp add: comp_def)
  then show "\<forall>a\<in>set achalls. challenge_files u achalls (token a) = Some (File u (validation a))"
    by (auto simp: challenge_files_def)
qed

text \<open>
  C1. For a non-empty list of challenges with pairwise distinct tokens, when the write
  phase (the directory cleared, then every challenge written) has succeeded, the
  challenge directory is a directory whose entries are exactly one file per challenge,
  named by the token and holding the encoded validation: whatever was there before the
  run is gone.
\<close>

theorem write_phase_directory:
  assumes "achalls \<noteq> []" and "distinct (map token achalls)"
    and "write_phase achalls directory w = (Inr (), w')"
  shows "lookup (Some (fs w')) directory = Some (Dir (uid w) (challenge_files (uid w) achalls))
       \<and> dom (challenge_files (uid w) achalls) = token ` set achalls
       \<and> (\<forall>a\<in>set achalls. challenge_files (uid w) achalls (token a) = Some (File (uid w) (validation a)))"
proof -
  from assms(1) obtain a as where as: "achalls = a # as" by (cases achalls) auto
  obtain r0 w0 where c: "clear_directory directory w = (r0, w0)" by (cases "clear_directory directory w")
  with assms(3) have r0: "r0 = Inr ()" and ws: "write_challenges achalls directory w0 = (Inr (), w')"
    by (auto simp: write_phase_def bind_io_def split: sum.splits)
  from clear_directory_ok [OF c [unfolded r0]]
  have d0: "lookup (Some (fs w0)) directory = None" and u0: "uid w0 = uid w" by simp_all
  obtain r1 w1 where f: "write_challenge a directory w0 = (r1, w1)"
    by (cases "write_challenge a directory w0")
  with ws as have r1: "r1 = Inr ()" and rest: "write_challenges as directory w1 = (Inr (), w')"
    by (auto simp: bind_io_def split: sum.splits)
  from write_challenge_fresh [OF d0 f [unfolded r1]] u0
  have d1: "lookup (Some (fs w1)) directory =
      Some (Dir (uid w) [token a \<mapsto> File (uid w) (validation a)])"
    and u1: "uid w1 = uid w"
    by simp_all
  from assms(2) as have dist: "distinct (map token as)" and na: "token a \<notin> token ` set as"
    by simp_all
  from na have fr: "\<forall>b\<in>set as. [token a \<mapsto> File (uid w) (validation a)] (token b) = None"
    by (fastforce simp: image_iff)
  from write_challenges_into [OF d1 dist fr rest, unfolded u1]
  have l: "lookup (Some (fs w')) directory =
      Some (Dir (uid w) ([token a \<mapsto> File (uid w) (validation a)] ++ challenge_files (uid w) as))"
    by blast
  from na have "challenge_files (uid w) as (token a) = None"
    by (simp add: challenge_files_def map_of_eq_None_iff image_image)
  then have "[token a \<mapsto> File (uid w) (validation a)] ++ challenge_files (uid w) as =
      challenge_files (uid w) achalls"
    by (auto simp: as challenge_files_def map_add_def fun_eq_iff split: option.splits)
  with l challenge_files_distinct [OF assms(2), of "uid w"] show ?thesis by simp
qed

lemma example_write_phase_ok:
  "fst (write_phase example_achalls example_directory example_world) = Inr ()"
  by (simp add: write_phase_def clear_directory_def path_exists_def rmtree_def fs_alter_def
      write_challenge_def makedirs_def write_file_def bind_io_def example_achalls_def
      example_achall_def example_directory_def example_world_def example_fs_def)

theorem write_phase_directory_witness:
  "fst (write_phase example_achalls example_directory example_world) = Inr ()
   \<and> lookup (Some (fs (snd (write_phase example_achalls example_directory example_world))))
        example_directory = Some (Dir 0 (challenge_files 0 example_achalls))
   \<and> challenge_files 0 example_achalls ''tok1'' = Some (File 0 ''tok1.thumbprint'')
   \<and> challenge_files 0 example_achalls ''tok2'' = Some (File 0 ''tok2.thumbprint'')
   \<and> challenge_files 0 example_achalls ''stale'' = None
   \<and> lookup (Some (fs example_world)) (example_directory @ [''stale'']) = Some (File 0 ''old'')"
proof -
  have ne: "example_achalls \<noteq> []" and di: "distinct (map token example_achalls)"
    by (simp_all add: example_achalls_def example_achall_def)
  have ok: "write_phase example_achalls example_directory example_world =
      (Inr (), snd (write_phase example_achalls example_directory example_world))"
    using example_write_phase_ok by (simp add: prod_eq_iff)
  have u: "uid example_world = 0" by (simp add: example_world_def)
  from write_phase_directory [OF ne di ok, unfolded u]
  have l: "lookup (Some (fs (snd (write_phase example_achalls example_directory example_world))))
        example_directory = Some (Dir 0 (challenge_files 0 example_achalls))"
    by blast
  have f: "challenge_files 0 example_achalls ''tok1'' = Some (File 0 ''tok1.thumbprint'')"
    "challenge_files 0 example_achalls ''tok2'' = Some (File 0 ''tok2.thumbprint'')"
    "challenge_files 0 example_achalls ''stale'' = None"
    by (simp_all add: challenge_files_def example_achalls_def example_achall_def)
  have s: "lookup (Some (fs example_world)) (example_directory @ [''stale'']) = Some (File 0 ''old'')"
    by (simp add: example_directory_def example_world_def example_fs_def)
  from example_write_phase_ok l f s show ?thesis by simp
qed

end
